theory Spec2Isabelle
  imports Complex_Main
begin

section \<open>Hostel occupancy: the client state and its derived values\<close>

text \<open>
  The sources are the React context \<^verbatim>\<open>HostelContext\<close> (two revisions, both in
  \<^verbatim>\<open>src/unnamed/part_001\<close>), the API client and the data transforms
  (\<^verbatim>\<open>src/frontend-web/src/lib/api.ts\<close>) and the seed script
  (\<^verbatim>\<open>src/unnamed/part_000\<close>). JavaScript numbers that hold amounts are modelled as
  rationals (JSON carries no NaN or infinity), counters and loop indices as integers,
  \<^verbatim>\<open>undefined\<close> as \<open>None\<close>.
\<close>

subsection \<open>The entity graph held by the client\<close>

datatype billingFrequency = monthly | yearly | custom

record Resident =
  Resident_id :: string
  name :: string
  age :: int
  contactNumber :: string
  email :: string
  emergencyContact :: string
  bedId :: string
  billingFrequency :: billingFrequency
  startDate :: string
  endDate :: string
  monthlyRent :: rat

record Bed =
  Bed_id :: string
  number :: int
  Bed_roomId :: string
  isOccupied :: bool
  resident :: "Resident option"

record Room =
  Room_id :: string
  beds :: "Bed list"

record Floor =
  Floor_id :: "nat list"
  rooms :: "Room list"

record Property =
  Property_id :: string
  floors :: "Floor list"

record OccupancyStats =
  total :: int
  occupied :: int
  available :: int

text \<open>
  \<^verbatim>\<open>getOccupancyStats\<close>: four nested \<^verbatim>\<open>forEach\<close> loops over
  \<^verbatim>\<open>properties\<close>, each bed doing \<^verbatim>\<open>total++\<close> and
  \<^verbatim>\<open>if (bed.isOccupied) occupied++\<close>; the result is
  \<^verbatim>\<open>{ total, occupied, available: total - occupied }\<close>.
\<close>

definition countBed :: "Bed \<Rightarrow> int \<times> int \<Rightarrow> int \<times> int" where
  "countBed bed acc =
     (case acc of (tot, occ) \<Rightarrow>
        (tot + 1, if isOccupied bed then occ + 1 else occ))"

definition getOccupancyStats :: "Property list \<Rightarrow> OccupancyStats" where
  "getOccupancyStats properties =
     (case fold (\<lambda>property.
              fold (\<lambda>floor.
                fold (\<lambda>room. fold countBed (beds room)) (rooms floor))
              (floors property))
            properties (0, 0) of
        (tot, occ) \<Rightarrow>
          \<lparr>total = tot, occupied = occ, available = tot - occ\<rparr>)"

text \<open>All beds of the graph, in traversal order: the reference for the count.\<close>

definition allBeds :: "Property list \<Rightarrow> Bed list" where
  "allBeds properties =
     concat (map beds (concat (map rooms (concat (map floors properties)))))"

subsection \<open>Strings as UTF-16 code units, and \<^verbatim>\<open>parseInt\<close>\<close>

text \<open>
  Bed labels are made by \<^verbatim>\<open>String.fromCharCode(65 + i)\<close> and read back by
  \<^verbatim>\<open>parseInt\<close>, so these strings are lists of UTF-16 code units.
  \<^verbatim>\<open>String.fromCharCode\<close> reduces its argument modulo \<open>2 ^ 16\<close>.
\<close>

type_synonym jsstring = "nat list"

definition fromCharCode :: "int \<Rightarrow> jsstring" where
  "fromCharCode n = [nat (n mod 65536)]"

text \<open>The white space and line terminators that \<^verbatim>\<open>parseInt\<close> skips.\<close>

definition isWhiteSpace :: "nat \<Rightarrow> bool" where
  "isWhiteSpace c \<longleftrightarrow>
     c = 9 \<or> c = 10 \<or> c = 11 \<or> c = 12 \<or> c = 13 \<or> c = 32 \<or> c = 160 \<or> c = 5760
     \<or> (8192 \<le> c \<and> c \<le> 8202) \<or> c = 8232 \<or> c = 8233 \<or> c = 8239 \<or> c = 8287
     \<or> c = 12288 \<or> c = 65279"

definition digitValue :: "nat \<Rightarrow> nat option" where
  "digitValue c =
     (if 48 \<le> c \<and> c \<le> 57 then Some (c - 48)
      else if 97 \<le> c \<and> c \<le> 122 then Some (c - 87)
      else if 65 \<le> c \<and> c \<le> 90 then Some (c - 55)
      else None)"

definition isRadixDigit :: "nat \<Rightarrow> nat \<Rightarrow> bool" where
  "isRadixDigit R c = (case digitValue c of None \<Rightarrow> False | Some d \<Rightarrow> d < R)"

definition digitsValue :: "nat \<Rightarrow> jsstring \<Rightarrow> nat" where
  "digitsValue R Z =
     foldl (\<lambda>a c. a * R + (case digitValue c of None \<Rightarrow> 0 | Some d \<Rightarrow> d)) 0 Z"

text \<open>
  \<^verbatim>\<open>parseInt(string)\<close> with no radix, as ECMAScript defines it: skip leading white
  space, read a sign, switch to radix 16 after \<^verbatim>\<open>0x\<close> or \<^verbatim>\<open>0X\<close>, take the
  longest prefix of digits; no digit gives NaN, here \<open>None\<close>.
\<close>

definition parseInt :: "jsstring \<Rightarrow> int option" where
  "parseInt inputString =
     (let S = dropWhile isWhiteSpace inputString;
          sign = (if S \<noteq> [] \<and> hd S = 45 then - 1 else 1 :: int);
          S1 = (if S \<noteq> [] \<and> (hd S = 43 \<or> hd S = 45) then tl S else S);
          hex = (2 \<le> length S1 \<and> S1 ! 0 = 48 \<and> (S1 ! 1 = 120 \<or> S1 ! 1 = 88));
          R = (if hex then 16 else 10);
          S2 = (if hex then drop 2 S1 else S1);
          Z = takeWhile (isRadixDigit R) S2
      in if Z = [] then None else Some (sign * int (digitsValue R Z)))"

text \<open>
  The values a backend bed carries in \<^verbatim>\<open>number\<close> and \<^verbatim>\<open>label\<close>: absent, a
  string, or an (integral) number. \<^verbatim>\<open>a || b\<close> takes \<open>b\<close> when \<open>a\<close> is falsy;
  \<^verbatim>\<open>parseInt\<close> first converts its argument to a string.
\<close>

datatype jsvalue = Undefined | Str jsstring | Num int

definition truthy :: "jsvalue \<Rightarrow> bool" where
  "truthy v = (case v of Undefined \<Rightarrow> False | Str s \<Rightarrow> s \<noteq> [] | Num n \<Rightarrow> n \<noteq> 0)"

definition js_or :: "jsvalue \<Rightarrow> jsvalue \<Rightarrow> jsvalue" where
  "js_or a b = (if truthy a then a else b)"

definition parseIntValue :: "jsvalue \<Rightarrow> int option" where
  "parseIntValue v =
     (case v of
        Undefined \<Rightarrow> parseInt [117, 110, 100, 101, 102, 105, 110, 101, 100]
      | Str s \<Rightarrow> parseInt s
      | Num n \<Rightarrow> Some n)"

record backendBed =
  bb_id :: string
  bb_number :: jsvalue
  bb_label :: jsvalue
  bb_roomId :: string
  bb_isOccupied :: bool
  bb_status :: string

text \<open>
  \<^verbatim>\<open>transformBed\<close>:
  \<^verbatim>\<open>number: parseInt(backendBed.number || backendBed.label) || 1\<close> and
  \<^verbatim>\<open>isOccupied: backendBed.isOccupied || backendBed.status === 'OCCUPIED'\<close>.
\<close>

definition transformBed :: "backendBed \<Rightarrow> Resident option \<Rightarrow> Bed" where
  "transformBed b r =
     \<lparr>Bed_id = bb_id b,
      number = (case parseIntValue (js_or (bb_number b) (bb_label b)) of
                  None \<Rightarrow> 1
                | Some n \<Rightarrow> if n = 0 then 1 else n),
      Bed_roomId = bb_roomId b,
      isOccupied = (bb_isOccupied b \<or> bb_status b = ''OCCUPIED''),
      resident = r\<rparr>"

subsection \<open>Derived monthly rent\<close>

text \<open>
  The resident object nested in a bed of \<^verbatim>\<open>GET /properties\<close>, as
  \<^verbatim>\<open>refreshData\<close> reads it: \<^verbatim>\<open>totalAmount\<close> and \<^verbatim>\<open>frequency\<close> may be
  absent, and the frequency is a free string.
\<close>

record backendResident =
  br_totalAmount :: "rat option"
  br_frequency :: "string option"

text \<open>
  \<^verbatim>\<open>refreshData\<close>, the computation of \<^verbatim>\<open>monthlyRent\<close> for one bed:
  \<^verbatim>\<open>let monthlyRent = 0; if (bed.resident?.totalAmount) { const freq =
  bed.resident.frequency || 'MONTHLY'; ... }\<close> with the threshold \<open>50000\<close>.
\<close>

definition refreshData_monthlyRent :: "backendResident option \<Rightarrow> rat" where
  "refreshData_monthlyRent res =
     (case res of
        None \<Rightarrow> 0
      | Some r \<Rightarrow>
          (case br_totalAmount r of
             None \<Rightarrow> 0
           | Some totalAmount \<Rightarrow>
               if totalAmount = 0 then 0
               else
                 let freq = (case br_frequency r of
                               None \<Rightarrow> ''MONTHLY''
                             | Some f \<Rightarrow> if f = [] then ''MONTHLY'' else f)
                 in if freq = ''YEARLY'' then totalAmount / 12
                    else if freq = ''MONTHLY'' then
                      (if totalAmount > 50000 then totalAmount / 12 else totalAmount)
                    else totalAmount))"

record backendBooking =
  bk_frequency :: "string option"
  bk_totalAmount :: "rat option"

record backendStudent =
  bs_id :: string
  bs_bookings :: "backendBooking list option"

text \<open>
  \<^verbatim>\<open>transformResident\<close>, the field \<^verbatim>\<open>monthlyRent\<close>:
  \<^verbatim>\<open>const booking = backendStudent.bookings?.[0]\<close> and
  \<^verbatim>\<open>monthlyRent: booking?.totalAmount ? booking.totalAmount / 12 : 0\<close>.
\<close>

definition transformResident_monthlyRent :: "backendStudent \<Rightarrow> rat" where
  "transformResident_monthlyRent backendStudent =
     (case bs_bookings backendStudent of
        None \<Rightarrow> 0
      | Some [] \<Rightarrow> 0
      | Some (booking # _) \<Rightarrow>
          (case bk_totalAmount booking of
             None \<Rightarrow> 0
           | Some totalAmount \<Rightarrow> if totalAmount = 0 then 0 else totalAmount / 12))"

subsection \<open>The onboarding request\<close>

datatype Frequency = MONTHLY | YEARLY | EXCEPTION

datatype PaymentMethod = UPI_REQUEST | QR_SCAN | CASH_OFFLINE

record OnboardingData =
  ob_name :: string
  ob_age :: int
  ob_phoneNumber :: string
  ob_email :: "string option"
  ob_emergencyContact :: string
  ob_address :: "string option"
  ob_bedId :: string
  ob_frequency :: Frequency
  ob_startDate :: string
  ob_endDate :: string
  ob_totalAmount :: rat
  ob_paymentMethod :: PaymentMethod
  ob_transactionRef :: "string option"

text \<open>
  \<^verbatim>\<open>addResident\<close> (second revision): the object handed to
  \<^verbatim>\<open>api.createOnboarding\<close>. \<^verbatim>\<open>resident.email || undefined\<close> drops an empty
  e-mail; \<^verbatim>\<open>totalAmount: resident.monthlyRent * 12\<close>. The product is the one
  multiplication of the code, taken exactly: the code multiplies doubles, whose result is
  this product rounded, and equal to it for whole rents such as 5000. Nothing below
  composes it with a later division.
\<close>

definition addResident_data :: "Resident \<Rightarrow> OnboardingData" where
  "addResident_data r =
     \<lparr>ob_name = name r,
      ob_age = age r,
      ob_phoneNumber = contactNumber r,
      ob_email = (if email r = [] then None else Some (email r)),
      ob_emergencyContact = emergencyContact r,
      ob_address = Some [],
      ob_bedId = bedId r,
      ob_frequency = (if billingFrequency r = monthly then MONTHLY
                      else if billingFrequency r = yearly then YEARLY
                      else EXCEPTION),
      ob_startDate = startDate r,
      ob_endDate = endDate r,
      ob_totalAmount = monthlyRent r * 12,
      ob_paymentMethod = CASH_OFFLINE,
      ob_transactionRef = None\<rparr>"

subsection \<open>Requests to the backend\<close>

text \<open>
  The context functions change the hostel only through the REST client. A run of one of
  them is modelled by the list of requests the backend accepted, in order, and the
  outcome: \<open>Inr ()\<close> when the function returns, \<open>Inl e\<close> when it throws. The route
  handlers are not part of the sources, so the backend is a parameter: which requests it
  accepts and what it answers. The read-only refresh that ends each function
  (\<^verbatim>\<open>fetchData\<close>, \<^verbatim>\<open>refreshData\<close>) catches its own errors and is left out.
\<close>

datatype bed_status = AVAILABLE | OCCUPIED

datatype ComplaintStatus = OPEN | IN_PROGRESS | RESOLVED

record BedCreate =
  bc_label :: jsstring
  bc_roomId :: string
  bc_status :: bed_status

record BedUpdate =
  bu_status :: bed_status
  bu_currentStudentId :: "string option"

record RoomCreate =
  rc_roomNumber :: string
  rc_floorNumber :: "int option"
  rc_type :: string
  rc_capacity :: int
  rc_propertyId :: string

datatype request =
    GetRoom string
  | CreateRoom RoomCreate
  | UpdateRoom string int
  | DeleteRoom string
  | CreateBed BedCreate
  | UpdateBed string BedUpdate
  | DeleteBed string
  | CreateOnboarding OnboardingData
  | UpdateComplaint string ComplaintStatus

text \<open>The thrown errors: a failed request, and the two \<^verbatim>\<open>throw new Error(...)\<close>
  of the context: \<^verbatim>\<open>'Property not found'\<close> and
  \<^verbatim>\<open>'Cannot reduce beds below occupied count'\<close>.\<close>

datatype error = RequestFailed | PropertyNotFound | CapacityViolation

record apiBed =
  ab_id :: string
  ab_label :: jsstring
  ab_status :: bed_status
  ab_currentStudentId :: "string option"

record apiRoom =
  ar_id :: string
  ar_capacity :: int
  ar_beds :: "apiBed list option"

record backend =
  respond :: "request \<Rightarrow> bool"
  getRoom_result :: "string \<Rightarrow> apiRoom"
  createRoom_id :: "RoomCreate \<Rightarrow> string"

type_synonym run = "request list \<times> (error + unit)"

text \<open>
  \<^verbatim>\<open>updateBedStatus\<close> (both revisions): the body of \<^verbatim>\<open>PUT /beds/:id\<close> is
  \<^verbatim>\<open>{ status: isOccupied ? 'OCCUPIED' : 'AVAILABLE', currentStudentId:
  isOccupied && resident ? resident.id : undefined }\<close>.
\<close>

definition updateBedStatus_data :: "bool \<Rightarrow> Resident option \<Rightarrow> BedUpdate" where
  "updateBedStatus_data isOcc res =
     \<lparr>bu_status = (if isOcc then OCCUPIED else AVAILABLE),
      bu_currentStudentId =
        (case res of
           None \<Rightarrow> None
         | Some r \<Rightarrow> if isOcc then Some (Resident_id r) else None)\<rparr>"

definition updateBedStatus :: "backend \<Rightarrow> string \<Rightarrow> bool \<Rightarrow> Resident option \<Rightarrow> run" where
  "updateBedStatus be bedId' isOcc res =
     (let req = UpdateBed bedId' (updateBedStatus_data isOcc res)
      in if respond be req then ([req], Inr ()) else ([], Inl RequestFailed))"

text \<open>
  The loop shared by \<^verbatim>\<open>addRoom\<close> and \<^verbatim>\<open>updateRoomBeds\<close>:
  \<^verbatim>\<open>for (let i = ...; i < bedCount; i++) await api.createBed({ label:
  String.fromCharCode(65 + i), roomId, status: 'AVAILABLE' })\<close>. A request that fails
  throws out of the loop.
\<close>

definition newBed :: "string \<Rightarrow> int \<Rightarrow> BedCreate" where
  "newBed roomId i =
     \<lparr>bc_label = fromCharCode (65 + i), bc_roomId = roomId, bc_status = AVAILABLE\<rparr>"

function createBeds :: "backend \<Rightarrow> string \<Rightarrow> int \<Rightarrow> int \<Rightarrow> run" where
  "createBeds be roomId i bedCount =
     (if i < bedCount then
        (if respond be (CreateBed (newBed roomId i)) then
           (case createBeds be roomId (i + 1) bedCount of
              (sent, r) \<Rightarrow> (CreateBed (newBed roomId i) # sent, r))
         else ([], Inl RequestFailed))
      else ([], Inr ()))"
  by pat_completeness auto
termination
  by (relation "measure (\<lambda>(be, roomId, i, bedCount). nat (bedCount - i))") auto

declare createBeds.simps [simp del]

text \<open>\<^verbatim>\<open>String.prototype.replace\<close> with a string pattern: the first occurrence only.\<close>

fun replaceFirst :: "jsstring \<Rightarrow> jsstring \<Rightarrow> jsstring \<Rightarrow> jsstring" where
  "replaceFirst pat rep [] = (if pat = [] then rep else [])"
| "replaceFirst pat rep (c # cs) =
     (if take (length pat) (c # cs) = pat then rep @ drop (length pat) (c # cs)
      else c # replaceFirst pat rep cs)"

text \<open>
  \<^verbatim>\<open>addRoom\<close> (second revision; the first differs only in the order of the two
  pure steps): find the property that has the floor, parse the floor number out of
  \<^verbatim>\<open>floorId.replace('floor-', '')\<close>, create the room with
  \<^verbatim>\<open>capacity: bedCount\<close>, then create the beds. The \<^verbatim>\<open>catch\<close> block logs and
  rethrows.
\<close>

definition roomData :: "Property \<Rightarrow> jsstring \<Rightarrow> string \<Rightarrow> int \<Rightarrow> RoomCreate" where
  "roomData property floorId roomNumber bedCount =
     \<lparr>rc_roomNumber = roomNumber,
      rc_floorNumber = parseInt (replaceFirst [102, 108, 111, 111, 114, 45] [] floorId),
      rc_type = ''STANDARD'', rc_capacity = bedCount,
      rc_propertyId = Property_id property\<rparr>"

definition findProperty :: "Property list \<Rightarrow> jsstring \<Rightarrow> Property option" where
  "findProperty properties floorId =
     find (\<lambda>p. list_ex (\<lambda>f. Floor_id f = floorId) (floors p)) properties"

definition addRoom :: "backend \<Rightarrow> Property list \<Rightarrow> jsstring \<Rightarrow> string \<Rightarrow> int \<Rightarrow> run" where
  "addRoom be properties floorId roomNumber bedCount =
     (case findProperty properties floorId of
        None \<Rightarrow> ([], Inl PropertyNotFound)
      | Some property \<Rightarrow>
          let data = roomData property floorId roomNumber bedCount
          in if respond be (CreateRoom data) then
               (case createBeds be (createRoom_id be data) 0 bedCount of
                  (sent, r) \<Rightarrow> (CreateRoom data # sent, r))
             else ([], Inl RequestFailed))"

text \<open>
  \<^verbatim>\<open>updateRoomBeds\<close> (first revision): fetch the room, count its beds
  (\<^verbatim>\<open>room.beds?.length || 0\<close>) and filter its occupied beds
  (\<^verbatim>\<open>room.beds?.filter(b => b.status === 'OCCUPIED') || []\<close>), refuse a count
  below the occupied ones, update the capacity, create the missing beds. The second revision is the single request
  \<^verbatim>\<open>api.updateRoom(roomId, { capacity: bedCount })\<close>.
\<close>

definition bedsOf :: "apiRoom \<Rightarrow> apiBed list" where
  "bedsOf room = (case ar_beds room of None \<Rightarrow> [] | Some bs \<Rightarrow> bs)"

definition currentBedCount :: "apiRoom \<Rightarrow> int" where
  "currentBedCount room = int (length (bedsOf room))"

definition occupiedBeds :: "apiRoom \<Rightarrow> apiBed list" where
  "occupiedBeds room = filter (\<lambda>b. ab_status b = OCCUPIED) (bedsOf room)"

definition updateRoomBeds :: "backend \<Rightarrow> string \<Rightarrow> int \<Rightarrow> run" where
  "updateRoomBeds be roomId bedCount =
     (if respond be (GetRoom roomId) then
        (let room = getRoom_result be roomId
         in if bedCount < int (length (occupiedBeds room)) then
              ([GetRoom roomId], Inl CapacityViolation)
            else if respond be (UpdateRoom roomId bedCount) then
              (case (if bedCount > currentBedCount room
                     then createBeds be roomId (currentBedCount room) bedCount
                     else ([], Inr ())) of
                 (sent, r) \<Rightarrow> (GetRoom roomId # UpdateRoom roomId bedCount # sent, r))
            else ([GetRoom roomId], Inl RequestFailed))
      else ([], Inl RequestFailed))"

definition updateRoomBeds2 :: "backend \<Rightarrow> string \<Rightarrow> int \<Rightarrow> run" where
  "updateRoomBeds2 be roomId bedCount =
     (if respond be (UpdateRoom roomId bedCount) then ([UpdateRoom roomId bedCount], Inr ())
      else ([], Inl RequestFailed))"

text \<open>What a log created and deleted; the order of JavaScript strings.\<close>

fun createdBeds :: "request list \<Rightarrow> BedCreate list" where
  "createdBeds [] = []"
| "createdBeds (CreateBed d # rs) = d # createdBeds rs"
| "createdBeds (_ # rs) = createdBeds rs"

fun isDelete :: "request \<Rightarrow> bool" where
  "isDelete (DeleteRoom _) = True"
| "isDelete (DeleteBed _) = True"
| "isDelete _ = False"

fun js_less :: "jsstring \<Rightarrow> jsstring \<Rightarrow> bool" where
  "js_less [] [] = False"
| "js_less [] (y # ys) = True"
| "js_less (x # xs) [] = False"
| "js_less (x # xs) (y # ys) = (x < y \<or> (x = y \<and> js_less xs ys))"

text \<open>
  \<^verbatim>\<open>transformComplaintStatusToBackend\<close> on the three values of its argument type,
  and \<^verbatim>\<open>updateComplaintStatus\<close>, which sends the mapped status.
\<close>

datatype complaintStatus = status_open | status_in_progress | status_resolved

fun transformComplaintStatusToBackend :: "complaintStatus \<Rightarrow> ComplaintStatus" where
  "transformComplaintStatusToBackend status_open = OPEN"
| "transformComplaintStatusToBackend status_in_progress = IN_PROGRESS"
| "transformComplaintStatusToBackend status_resolved = RESOLVED"

definition updateComplaintStatus :: "backend \<Rightarrow> string \<Rightarrow> complaintStatus \<Rightarrow> run" where
  "updateComplaintStatus be complaintId st =
     (let req = UpdateComplaint complaintId (transformComplaintStatusToBackend st)
      in if respond be req then ([req], Inr ()) else ([], Inl RequestFailed))"

section \<open>The allocation core behind the requests\<close>

text \<open>
  The route handlers of the backend (\<^verbatim>\<open>backend/src/routes\<close>) are not among the
  sources. What they must do is taken from the specification: every definition of this
  section is modelled from it and says so.
\<close>

text \<open>Modelled from the spec: the error kinds of the core (section 7); the backend's
  own error type is missing.\<close>

datatype store_error = NotFound | Conflict | ValidationError

text \<open>Modelled from the spec: the Bed, Student, Booking, Payment and Complaint entities
  (section 3) with the fields the operations below read or write; the database schema is
  missing.\<close>

record bed =
  bed_id :: string
  bed_label :: jsstring
  bed_roomId :: string
  status :: bed_status
  currentStudentId :: "string option"

record Student =
  student_id :: string
  student_name :: string
  isActive :: bool

record Booking =
  booking_id :: string
  booking_studentId :: string
  frequency :: Frequency
  booking_startDate :: string
  booking_endDate :: string
  totalAmount :: rat

record Payment =
  payment_id :: string
  payment_bookingId :: string
  payment_method :: PaymentMethod
  transactionRef :: "string option"

record Complaint =
  complaint_id :: string
  complaint_status :: ComplaintStatus
  resolvedAt :: "nat option"

record store =
  store_beds :: "bed list"
  students :: "Student list"
  bookings :: "Booking list"
  payments :: "Payment list"

text \<open>Modelled from the spec: \<^verbatim>\<open>runTransaction(fn) -> result or Conflict\<close> of the
  Entity Store (section 6): the writes of a failed body are dropped. The store
  implementation is missing.\<close>

definition runTransaction ::
  "(store \<Rightarrow> store_error + store) \<Rightarrow> store \<Rightarrow> (store_error + unit) \<times> store" where
  "runTransaction body s =
     (case body s of Inl e \<Rightarrow> (Inl e, s) | Inr s' \<Rightarrow> (Inr (), s'))"

text \<open>Modelled from the spec: the steps of a transaction body run in order and the
  first failure ends the body (section 4.2, "all four sub-operations must commit together
  or none commit").\<close>

definition andThen ::
  "store_error + store \<Rightarrow> (store \<Rightarrow> store_error + store) \<Rightarrow> store_error + store" where
  "andThen r f = (case r of Inl e \<Rightarrow> Inl e | Inr s \<Rightarrow> f s)"

text \<open>Modelled from the spec: \<^verbatim>\<open>assignBed(bedId, studentId)\<close> (section 4.1): the bed
  must exist and be AVAILABLE, the student must exist, be active and hold no other bed;
  it fails with Conflict on an OCCUPIED bed or a student who holds a different bed, and
  otherwise sets the status and the student of the bed. The handler of
  \<^verbatim>\<open>PUT /beds/:id\<close> is missing.\<close>

definition assignBed_body :: "string \<Rightarrow> string \<Rightarrow> store \<Rightarrow> store_error + store" where
  "assignBed_body b sid s =
     (case find (\<lambda>x. bed_id x = b) (store_beds s) of
        None \<Rightarrow> Inl NotFound
      | Some x \<Rightarrow>
          if status x = OCCUPIED then Inl Conflict
          else
            (case find (\<lambda>st. student_id st = sid) (students s) of
               None \<Rightarrow> Inl NotFound
             | Some st \<Rightarrow>
                 if \<not> isActive st then Inl Conflict
                 else if list_ex (\<lambda>y. currentStudentId y = Some sid \<and> bed_id y \<noteq> b)
                           (store_beds s)
                 then Inl Conflict
                 else Inr (s\<lparr>store_beds :=
                              map (\<lambda>y. if bed_id y = b
                                        then y\<lparr>status := OCCUPIED, currentStudentId := Some sid\<rparr>
                                        else y)
                                  (store_beds s)\<rparr>)))"

definition assignBed :: "string \<Rightarrow> string \<Rightarrow> store \<Rightarrow> (store_error + unit) \<times> store" where
  "assignBed b sid s = runTransaction (assignBed_body b sid) s"

text \<open>Modelled from the spec: the three creations of onboarding (section 4.2, steps a
  to c); the identifiers are chosen by the store and are parameters here. The handler of
  \<^verbatim>\<open>POST /onboarding\<close> is missing.\<close>

definition createStudent :: "string \<Rightarrow> OnboardingData \<Rightarrow> store \<Rightarrow> store_error + store" where
  "createStudent sid d s =
     Inr (s\<lparr>students := students s @
              [\<lparr>student_id = sid, student_name = ob_name d, isActive = True\<rparr>]\<rparr>)"

definition createBooking ::
  "string \<Rightarrow> string \<Rightarrow> OnboardingData \<Rightarrow> store \<Rightarrow> store_error + store" where
  "createBooking bid sid d s =
     Inr (s\<lparr>bookings := bookings s @
              [\<lparr>booking_id = bid, booking_studentId = sid, frequency = ob_frequency d,
                booking_startDate = ob_startDate d, booking_endDate = ob_endDate d,
                totalAmount = ob_totalAmount d\<rparr>]\<rparr>)"

definition createPayment ::
  "string \<Rightarrow> string \<Rightarrow> OnboardingData \<Rightarrow> store \<Rightarrow> store_error + store" where
  "createPayment pid bid d s =
     Inr (s\<lparr>payments := payments s @
              [\<lparr>payment_id = pid, payment_bookingId = bid, payment_method = ob_paymentMethod d,
                transactionRef = ob_transactionRef d\<rparr>]\<rparr>)"

text \<open>Modelled from the spec: \<^verbatim>\<open>onboard\<close> (section 4.2): create the student, the
  booking and the payment, then assign the bed through the allocation engine, all in one
  transaction, so that the bed is checked at commit time. The handler of
  \<^verbatim>\<open>POST /onboarding\<close> is missing.\<close>

definition onboard_body ::
  "string \<Rightarrow> string \<Rightarrow> string \<Rightarrow> OnboardingData \<Rightarrow> store \<Rightarrow> store_error + store" where
  "onboard_body sid bid pid d s =
     andThen (andThen (andThen (createStudent sid d s) (createBooking bid sid d))
                (createPayment pid bid d))
       (assignBed_body (ob_bedId d) sid)"

definition onboard ::
  "string \<Rightarrow> string \<Rightarrow> string \<Rightarrow> OnboardingData \<Rightarrow> store \<Rightarrow> (store_error + unit) \<times> store" where
  "onboard sid bid pid d s = runTransaction (onboard_body sid bid pid d) s"

text \<open>Modelled from the spec: \<^verbatim>\<open>updateStatus(complaintId, newStatus)\<close> (section 4.3)
  on the complaint it names, at time \<open>now\<close>: the same status again is a no-op, nothing
  leaves RESOLVED, nothing returns to OPEN, and entering RESOLVED stamps
  \<^verbatim>\<open>resolvedAt\<close>. The handler of \<^verbatim>\<open>PUT /complaints/:id\<close> is missing.\<close>

definition updateStatus :: "nat \<Rightarrow> ComplaintStatus \<Rightarrow> Complaint \<Rightarrow> store_error + Complaint" where
  "updateStatus now newStatus c =
     (if newStatus = complaint_status c then Inr c
      else if complaint_status c = RESOLVED then Inl Conflict
      else if newStatus = OPEN then Inl Conflict
      else if newStatus = RESOLVED then
        Inr (c\<lparr>complaint_status := RESOLVED, resolvedAt := Some now\<rparr>)
      else Inr (c\<lparr>complaint_status := newStatus\<rparr>))"

text \<open>Modelled from the spec: a complaint is created OPEN with no \<^verbatim>\<open>resolvedAt\<close>
  (section 3); a history is a list of status updates with their times, a rejected update
  leaving the complaint as it is.\<close>

definition newComplaint :: "string \<Rightarrow> Complaint" where
  "newComplaint cid = \<lparr>complaint_id = cid, complaint_status = OPEN, resolvedAt = None\<rparr>"

fun runUpdates :: "Complaint \<Rightarrow> (nat \<times> ComplaintStatus) list \<Rightarrow> Complaint" where
  "runUpdates c [] = c"
| "runUpdates c ((now, st) # us) =
     (case updateStatus now st c of
        Inl _ \<Rightarrow> runUpdates c us
      | Inr c' \<Rightarrow> runUpdates c' us)"

text \<open>Modelled from the spec: the order of the states,
  \<^verbatim>\<open>OPEN -> IN_PROGRESS -> RESOLVED\<close> (section 4.3).\<close>

fun rank :: "ComplaintStatus \<Rightarrow> nat" where
  "rank OPEN = 0"
| "rank IN_PROGRESS = 1"
| "rank RESOLVED = 2"

section \<open>Example inputs\<close>

text \<open>
  Concrete backends, rooms and residents on which the theorems below are run: a backend
  that accepts every request, one that rejects the bed labelled \<^verbatim>\<open>B\<close>, a room with
  beds \<^verbatim>\<open>A, B\<close>, a room whose bed \<^verbatim>\<open>B\<close> was deleted, and a room of 65470 beds.
\<close>

definition acceptAll :: "request \<Rightarrow> bool" where
  "acceptAll r = True"

definition rejectLabelB :: "request \<Rightarrow> bool" where
  "rejectLabelB r = (case r of CreateBed d \<Rightarrow> bc_label d \<noteq> [66] | _ \<Rightarrow> True)"

definition roomAB :: "string \<Rightarrow> apiRoom" where
  "roomAB rid =
     \<lparr>ar_id = rid, ar_capacity = 2,
      ar_beds = Some [\<lparr>ab_id = ''bed-a'', ab_label = [65], ab_status = AVAILABLE,
                        ab_currentStudentId = None\<rparr>,
                      \<lparr>ab_id = ''bed-b'', ab_label = [66], ab_status = OCCUPIED,
                        ab_currentStudentId = Some ''s0''\<rparr>]\<rparr>"

definition roomAC :: "string \<Rightarrow> apiRoom" where
  "roomAC rid =
     \<lparr>ar_id = rid, ar_capacity = 3,
      ar_beds = Some [\<lparr>ab_id = ''bed-a'', ab_label = [65], ab_status = AVAILABLE,
                        ab_currentStudentId = None\<rparr>,
                      \<lparr>ab_id = ''bed-c'', ab_label = [67], ab_status = AVAILABLE,
                        ab_currentStudentId = None\<rparr>]\<rparr>"

definition roomLarge :: "string \<Rightarrow> apiRoom" where
  "roomLarge rid =
     \<lparr>ar_id = rid, ar_capacity = 65470,
      ar_beds = Some (replicate 65470 \<lparr>ab_id = ''bed'', ab_label = [65], ab_status = AVAILABLE,
                        ab_currentStudentId = None\<rparr>)\<rparr>"

definition roomId1 :: "RoomCreate \<Rightarrow> string" where
  "roomId1 d = ''room-1''"

definition backendAB :: backend where
  "backendAB = \<lparr>respond = acceptAll, getRoom_result = roomAB, createRoom_id = roomId1\<rparr>"

definition backendAC :: backend where
  "backendAC = \<lparr>respond = acceptAll, getRoom_result = roomAC, createRoom_id = roomId1\<rparr>"

definition backendLarge :: backend where
  "backendLarge = \<lparr>respond = acceptAll, getRoom_result = roomLarge, createRoom_id = roomId1\<rparr>"

definition backendRejectB :: backend where
  "backendRejectB = \<lparr>respond = rejectLabelB, getRoom_result = roomAB, createRoom_id = roomId1\<rparr>"

definition floor1 :: jsstring where
  "floor1 = [102, 108, 111, 111, 114, 45, 49]"

definition exampleProperties :: "Property list" where
  "exampleProperties =
     [\<lparr>Property_id = ''p1'', floors = [\<lparr>Floor_id = floor1, rooms = []\<rparr>]\<rparr>]"

definition exampleResident :: Resident where
  "exampleResident =
     \<lparr>Resident_id = ''s1'', name = ''Asha'', age = 21, contactNumber = ''+910000000000'',
      email = [], emergencyContact = ''+910000000001'', bedId = ''bed-a'',
      billingFrequency = monthly, startDate = ''2025-01-01'', endDate = ''2025-12-31'',
      monthlyRent = 5000\<rparr>"

definition exampleStore :: store where
  "exampleStore =
     \<lparr>store_beds =
        [\<lparr>bed_id = ''bed-a'', bed_label = [65], bed_roomId = ''room-1'', status = AVAILABLE,
          currentStudentId = None\<rparr>,
         \<lparr>bed_id = ''bed-b'', bed_label = [66], bed_roomId = ''room-1'', status = OCCUPIED,
          currentStudentId = Some ''s0''\<rparr>],
      students = [\<lparr>student_id = ''s0'', student_name = ''Ravi'', isActive = True\<rparr>],
      bookings = [], payments = []\<rparr>"

definition exampleGraph :: "Property list" where
  "exampleGraph =
     [\<lparr>Property_id = ''p1'',
       floors =
         [\<lparr>Floor_id = floor1,
           rooms =
             [\<lparr>Room_id = ''room-1'',
               beds = [\<lparr>Bed_id = ''bed-a'', number = 1, Bed_roomId = ''room-1'',
                        isOccupied = True, resident = Some exampleResident\<rparr>,
                       \<lparr>Bed_id = ''bed-b'', number = 2, Bed_roomId = ''room-1'',
                        isOccupied = False, resident = None\<rparr>]\<rparr>,
              \<lparr>Room_id = ''room-2'',
               beds = [\<lparr>Bed_id = ''bed-c'', number = 1, Bed_roomId = ''room-2'',
                        isOccupied = False, resident = None\<rparr>]\<rparr>]\<rparr>]\<rparr>,
      \<lparr>Property_id = ''p2'', floors = []\<rparr>]"

section \<open>Occupancy statistics\<close>

lemma fold_countBed:
  "fold countBed bs (t, oc) =
     (t + int (length bs), oc + int (length (filter isOccupied bs)))"
  by (induction bs arbitrary: t oc) (simp_all add: countBed_def)

lemma fold_rooms:
  "fold (\<lambda>room. fold countBed (beds room)) rs (t, oc) =
     (t + int (length (concat (map beds rs))),
      oc + int (length (filter isOccupied (concat (map beds rs)))))"
  by (induction rs arbitrary: t oc) (simp_all add: fold_countBed)

lemma fold_floors:
  "fold (\<lambda>floor. fold (\<lambda>room. fold countBed (beds room)) (rooms floor)) fs (t, oc) =
     (t + int (length (concat (map beds (concat (map rooms fs))))),
      oc + int (length (filter isOccupied (concat (map beds (concat (map rooms fs)))))))"
  by (induction fs arbitrary: t oc) (simp_all add: fold_rooms)

lemma fold_properties:
  "fold (\<lambda>property. fold (\<lambda>floor. fold (\<lambda>room. fold countBed (beds room)) (rooms floor))
           (floors property)) ps (t, oc) =
     (t + int (length (allBeds ps)), oc + int (length (filter isOccupied (allBeds ps))))"
  by (induction ps arbitrary: t oc) (simp_all add: fold_floors allBeds_def)

lemma length_filter_split:
  "length xs = length (filter P xs) + length (filter (\<lambda>x. \<not> P x) xs)"
  by (induction xs) simp_all

text \<open>
  C8. For every entity graph, \<^verbatim>\<open>getOccupancyStats\<close> returns a record whose
  \<^verbatim>\<open>total\<close> is \<^verbatim>\<open>occupied + available\<close>, and whose \<^verbatim>\<open>total\<close> is the number
  of beds of all rooms of all floors of all properties: each bed is counted once. The
  occupied count is the number of beds with \<^verbatim>\<open>isOccupied\<close>, the available count the
  number of the others.
\<close>

theorem getOccupancyStats_total:
  "total (getOccupancyStats ps) = occupied (getOccupancyStats ps) + available (getOccupancyStats ps)
   \<and> total (getOccupancyStats ps) = int (length (allBeds ps))
   \<and> occupied (getOccupancyStats ps) = int (length (filter isOccupied (allBeds ps)))
   \<and> available (getOccupancyStats ps) = int (length (filter (\<lambda>b. \<not> isOccupied b) (allBeds ps)))"
  using length_filter_split [of "allBeds ps" isOccupied]
  by (simp add: getOccupancyStats_def fold_properties)

theorem getOccupancyStats_total_witness:
  "getOccupancyStats exampleGraph = \<lparr>total = 3, occupied = 1, available = 2\<rparr>
   \<and> length (allBeds exampleGraph) = 3"
proof -
  have n: "length (allBeds exampleGraph) = 3"
    by (simp add: allBeds_def exampleGraph_def)
  have o: "length (filter isOccupied (allBeds exampleGraph)) = 1"
    by (simp add: allBeds_def exampleGraph_def)
  have e: "s = \<lparr>total = total s, occupied = occupied s, available = available s\<rparr>"
    for s :: OccupancyStats by simp
  show ?thesis
    using getOccupancyStats_total [of exampleGraph] n o
      e [of "getOccupancyStats exampleGraph"]
    by simp
qed

section \<open>Bed numbers from labels\<close>

lemma parseInt_single:
  "\<not> (48 \<le> c \<and> c \<le> 57) \<Longrightarrow> parseInt [c] = None"
  by (auto simp: parseInt_def Let_def isRadixDigit_def digitValue_def split: option.splits)

text \<open>
  C10. For every backend bed whose \<^verbatim>\<open>number\<close> field is a one-character string that
  is not a decimal digit, or whose \<^verbatim>\<open>number\<close> is falsy and whose \<^verbatim>\<open>label\<close> is
  such a string (a letter \<^verbatim>\<open>A\<close>, \<^verbatim>\<open>B\<close>, \<^verbatim>\<open>C\<close>, ...), \<^verbatim>\<open>transformBed\<close> returns
  \<^verbatim>\<open>number = 1\<close>: \<^verbatim>\<open>parseInt\<close> finds no digit and the result falls back to 1,
  whatever the letter.
\<close>

theorem transformBed_letter:
  assumes "\<not> (48 \<le> c \<and> c \<le> 57)"
    and "bb_number b = Str [c] \<or> (\<not> truthy (bb_number b) \<and> bb_label b = Str [c])"
  shows "number (transformBed b r) = 1"
  using assms parseInt_single [of c]
  by (auto simp: transformBed_def js_or_def parseIntValue_def truthy_def)

theorem transformBed_letter_witness:
  "\<not> (48 \<le> (66::nat) \<and> (66::nat) \<le> 57)
   \<and> number (transformBed \<lparr>bb_id = ''bed-b'', bb_number = Undefined,
         bb_label = Str (fromCharCode (65 + 1)), bb_roomId = ''room-1'', bb_isOccupied = False,
         bb_status = ''AVAILABLE''\<rparr> None) = 1
   \<and> number (transformBed \<lparr>bb_id = ''bed-a'', bb_number = Str [65], bb_label = Undefined,
         bb_roomId = ''room-1'', bb_isOccupied = False, bb_status = ''AVAILABLE''\<rparr> None) = 1"
  using transformBed_letter [of 66 "\<lparr>bb_id = ''bed-b'', bb_number = Undefined,
         bb_label = Str (fromCharCode (65 + 1)), bb_roomId = ''room-1'', bb_isOccupied = False,
         bb_status = ''AVAILABLE''\<rparr>" None]
    transformBed_letter [of 65 "\<lparr>bb_id = ''bed-a'', bb_number = Str [65], bb_label = Undefined,
         bb_roomId = ''room-1'', bb_isOccupied = False, bb_status = ''AVAILABLE''\<rparr>" None]
  by (simp add: truthy_def fromCharCode_def)

section \<open>Monthly rent and the stored total\<close>

text \<open>
  C4, as the code has it. For a resident with a total amount \<open>t\<close>, \<^verbatim>\<open>refreshData\<close>
  derives the monthly rent \<open>t / 12\<close> when the frequency is YEARLY, \<open>t / 12\<close> when it is
  MONTHLY and \<open>t > 50000\<close>, \<open>t\<close> when it is MONTHLY and \<open>t \<le> 50000\<close>, and \<open>t\<close> for every
  other non-empty frequency (EXCEPTION among them); a missing or empty frequency counts as
  MONTHLY. \<^verbatim>\<open>transformResident\<close> derives \<open>t / 12\<close> from the first booking whatever its
  frequency.
\<close>

theorem monthlyRent_derived:
  assumes "br_totalAmount r = Some t"
  shows "(br_frequency r = Some ''YEARLY'' \<longrightarrow> refreshData_monthlyRent (Some r) = t / 12)
     \<and> (br_frequency r = Some ''MONTHLY'' \<and> t > 50000 \<longrightarrow> refreshData_monthlyRent (Some r) = t / 12)
     \<and> (br_frequency r = Some ''MONTHLY'' \<and> t \<le> 50000 \<longrightarrow> refreshData_monthlyRent (Some r) = t)
     \<and> (br_frequency r = Some f \<and> f \<noteq> [] \<and> f \<noteq> ''YEARLY'' \<and> f \<noteq> ''MONTHLY''
          \<longrightarrow> refreshData_monthlyRent (Some r) = t)
     \<and> (br_frequency r = None \<or> br_frequency r = Some []
          \<longrightarrow> refreshData_monthlyRent (Some r) = (if t > 50000 then t / 12 else t))
     \<and> transformResident_monthlyRent
          \<lparr>bs_id = sid, bs_bookings = Some (\<lparr>bk_frequency = g, bk_totalAmount = Some t\<rparr> # others)\<rparr>
        = t / 12"
  using assms by (auto simp: refreshData_monthlyRent_def transformResident_monthlyRent_def Let_def)

text \<open>
  C4 as first stated (the total is kept unchanged in every case other than YEARLY
  and MONTHLY above the threshold) fails: \<^verbatim>\<open>transformResident\<close> turns a MONTHLY or
  EXCEPTION total of 6000 into 500, and \<^verbatim>\<open>refreshData\<close> turns a total of 60000 with
  no frequency into 5000.
\<close>

theorem monthlyRent_derived_counterexample:
  "transformResident_monthlyRent
      \<lparr>bs_id = ''s1'', bs_bookings = Some [\<lparr>bk_frequency = Some ''MONTHLY'', bk_totalAmount = Some 6000\<rparr>]\<rparr>
     = 500
   \<and> transformResident_monthlyRent
      \<lparr>bs_id = ''s1'', bs_bookings = Some [\<lparr>bk_frequency = Some ''MONTHLY'', bk_totalAmount = Some 6000\<rparr>]\<rparr>
     \<noteq> 6000
   \<and> transformResident_monthlyRent
      \<lparr>bs_id = ''s1'', bs_bookings = Some [\<lparr>bk_frequency = Some ''EXCEPTION'', bk_totalAmount = Some 6000\<rparr>]\<rparr>
     \<noteq> 6000
   \<and> refreshData_monthlyRent (Some \<lparr>br_totalAmount = Some 60000, br_frequency = None\<rparr>) \<noteq> 60000"
  by (simp add: refreshData_monthlyRent_def transformResident_monthlyRent_def)

theorem monthlyRent_derived_witness:
  "refreshData_monthlyRent (Some \<lparr>br_totalAmount = Some 60000, br_frequency = Some ''YEARLY''\<rparr>) = 5000
   \<and> refreshData_monthlyRent (Some \<lparr>br_totalAmount = Some 60000, br_frequency = Some ''MONTHLY''\<rparr>) = 5000
   \<and> refreshData_monthlyRent (Some \<lparr>br_totalAmount = Some 6000, br_frequency = Some ''MONTHLY''\<rparr>) = 6000
   \<and> refreshData_monthlyRent (Some \<lparr>br_totalAmount = Some 60000, br_frequency = Some ''EXCEPTION''\<rparr>) = 60000
   \<and> refreshData_monthlyRent (Some \<lparr>br_totalAmount = Some 6000, br_frequency = None\<rparr>) = 6000
   \<and> transformResident_monthlyRent
        \<lparr>bs_id = ''s1'', bs_bookings = Some [\<lparr>bk_frequency = Some ''YEARLY'', bk_totalAmount = Some 60000\<rparr>]\<rparr>
       = 5000"
  using monthlyRent_derived [of "\<lparr>br_totalAmount = Some 6000, br_frequency = None\<rparr>" 6000]
    monthlyRent_derived [of "\<lparr>br_totalAmount = Some 60000, br_frequency = Some ''YEARLY''\<rparr>" 60000
      "''YEARLY''" "''s1''" "Some ''YEARLY''" "[]"]
    monthlyRent_derived [of "\<lparr>br_totalAmount = Some 60000, br_frequency = Some ''YEARLY''\<rparr>" 60000]
    monthlyRent_derived [of "\<lparr>br_totalAmount = Some 60000, br_frequency = Some ''MONTHLY''\<rparr>" 60000]
    monthlyRent_derived [of "\<lparr>br_totalAmount = Some 6000, br_frequency = Some ''MONTHLY''\<rparr>" 6000]
    monthlyRent_derived [of "\<lparr>br_totalAmount = Some 60000, br_frequency = Some ''EXCEPTION''\<rparr>" 60000 "''EXCEPTION''"]
  by simp

text \<open>
  C9, as the code has it. The \<^verbatim>\<open>totalAmount\<close> that \<^verbatim>\<open>addResident\<close> sends to the
  onboarding endpoint is twelve times the monthly rent for every billing frequency:
  monthly, yearly and custom residents are sent as MONTHLY, YEARLY and EXCEPTION, each
  with the annualised figure.
\<close>

theorem addResident_totalAmount:
  "ob_totalAmount (addResident_data r) = monthlyRent r * 12
   \<and> (ob_frequency (addResident_data r) = MONTHLY \<longleftrightarrow> billingFrequency r = monthly)
   \<and> (ob_frequency (addResident_data r) = YEARLY \<longleftrightarrow> billingFrequency r = yearly)
   \<and> (ob_frequency (addResident_data r) = EXCEPTION \<longleftrightarrow> billingFrequency r = custom)"
  by (cases "billingFrequency r") (simp_all add: addResident_data_def)

text \<open>
  C9 as first stated (a MONTHLY booking stores the amount of its own cycle, not an
  annualised figure) fails: a monthly resident with a rent of 5000 is sent with a total
  of 60000.
\<close>

theorem addResident_totalAmount_counterexample:
  "ob_frequency (addResident_data exampleResident) = MONTHLY
   \<and> monthlyRent exampleResident = 5000
   \<and> ob_totalAmount (addResident_data exampleResident) = 60000
   \<and> ob_totalAmount (addResident_data exampleResident) \<noteq> monthlyRent exampleResident"
  by (simp add: addResident_data_def exampleResident_def)

theorem addResident_totalAmount_witness:
  "ob_totalAmount (addResident_data (exampleResident\<lparr>billingFrequency := yearly\<rparr>)) = 60000
   \<and> ob_frequency (addResident_data (exampleResident\<lparr>billingFrequency := yearly\<rparr>)) = YEARLY
   \<and> ob_totalAmount (addResident_data (exampleResident\<lparr>billingFrequency := custom\<rparr>)) = 60000
   \<and> ob_frequency (addResident_data (exampleResident\<lparr>billingFrequency := custom\<rparr>)) = EXCEPTION"
  using addResident_totalAmount [of "exampleResident\<lparr>billingFrequency := yearly\<rparr>"]
    addResident_totalAmount [of "exampleResident\<lparr>billingFrequency := custom\<rparr>"]
  by (simp add: exampleResident_def)

section \<open>The bed update request\<close>

text \<open>
  C2, as the code has it. \<^verbatim>\<open>updateBedStatus\<close> sends one \<^verbatim>\<open>PUT /beds/:id\<close>. Its
  status is OCCUPIED exactly when \<^verbatim>\<open>isOccupied\<close> is true; it carries a
  \<^verbatim>\<open>currentStudentId\<close> exactly when \<^verbatim>\<open>isOccupied\<close> is true and a resident is
  given, and then it is the resident's id. So the request has status OCCUPIED if and only
  if it has a student, whenever \<^verbatim>\<open>isOccupied\<close> is false or a resident is given.
\<close>

theorem updateBedStatus_request:
  "updateBedStatus be b isOcc res =
     (if respond be (UpdateBed b (updateBedStatus_data isOcc res))
      then ([UpdateBed b (updateBedStatus_data isOcc res)], Inr ()) else ([], Inl RequestFailed))
   \<and> (bu_status (updateBedStatus_data isOcc res) = OCCUPIED \<longleftrightarrow> isOcc)
   \<and> (bu_currentStudentId (updateBedStatus_data isOcc res) \<noteq> None \<longleftrightarrow> isOcc \<and> res \<noteq> None)
   \<and> (isOcc \<and> res = Some r \<longrightarrow>
        bu_currentStudentId (updateBedStatus_data isOcc res) = Some (Resident_id r))
   \<and> (\<not> isOcc \<or> res \<noteq> None \<longrightarrow>
        (bu_status (updateBedStatus_data isOcc res) = OCCUPIED
           \<longleftrightarrow> bu_currentStudentId (updateBedStatus_data isOcc res) \<noteq> None))"
  by (auto simp: updateBedStatus_def updateBedStatus_data_def Let_def split: option.splits)

text \<open>
  C2 as first stated (every operation that marks a bed OCCUPIED sets a non-null
  \<^verbatim>\<open>currentStudentId\<close>) fails: called with \<^verbatim>\<open>isOccupied = true\<close> and no resident,
  \<^verbatim>\<open>updateBedStatus\<close> marks the bed OCCUPIED and sends no student.
\<close>

theorem updateBedStatus_counterexample:
  "updateBedStatus backendAB ''bed-a'' True None =
     ([UpdateBed ''bed-a'' \<lparr>bu_status = OCCUPIED, bu_currentStudentId = None\<rparr>], Inr ())
   \<and> \<not> (bu_status (updateBedStatus_data True None) = OCCUPIED
          \<longleftrightarrow> bu_currentStudentId (updateBedStatus_data True None) \<noteq> None)"
  by (simp add: updateBedStatus_def updateBedStatus_data_def backendAB_def acceptAll_def)

theorem updateBedStatus_request_witness:
  "updateBedStatus backendAB ''bed-a'' True (Some exampleResident) =
     ([UpdateBed ''bed-a'' \<lparr>bu_status = OCCUPIED, bu_currentStudentId = Some ''s1''\<rparr>], Inr ())
   \<and> updateBedStatus backendAB ''bed-a'' False (Some exampleResident) =
     ([UpdateBed ''bed-a'' \<lparr>bu_status = AVAILABLE, bu_currentStudentId = None\<rparr>], Inr ())"
  using updateBedStatus_request [of backendAB "''bed-a''" True "Some exampleResident" exampleResident]
    updateBedStatus_request [of backendAB "''bed-a''" False "Some exampleResident" exampleResident]
  by (simp add: updateBedStatus_data_def backendAB_def acceptAll_def exampleResident_def)

section \<open>Creating and resizing rooms\<close>

lemma createBeds_all:
  "(\<And>i. lo \<le> i \<Longrightarrow> i < n \<Longrightarrow> respond be (CreateBed (newBed rid i))) \<Longrightarrow>
   createBeds be rid lo n = (map (\<lambda>i. CreateBed (newBed rid i)) [lo..n - 1], Inr ())"
proof (induction be rid lo n rule: createBeds.induct)
  case (1 be rid i n)
  show ?case
  proof (cases "i < n")
    case True
    have ok: "respond be (CreateBed (newBed rid i))" using "1.prems" True by simp
    have ih: "createBeds be rid (i + 1) n =
        (map (\<lambda>i. CreateBed (newBed rid i)) [i + 1..n - 1], Inr ())"
      using "1.IH" [OF True ok] "1.prems" by simp
    have "[i..n - 1] = i # [i + 1..n - 1]" using True by (simp add: upto_rec1)
    then show ?thesis using True ok ih by (simp add: createBeds.simps [of be rid i n])
  next
    case False
    then show ?thesis by (simp add: createBeds.simps [of be rid i n])
  qed
qed

lemma createBeds_fail:
  "lo \<le> k \<Longrightarrow> k < n \<Longrightarrow>
   (\<And>i. lo \<le> i \<Longrightarrow> i < k \<Longrightarrow> respond be (CreateBed (newBed rid i))) \<Longrightarrow>
   \<not> respond be (CreateBed (newBed rid k)) \<Longrightarrow>
   createBeds be rid lo n = (map (\<lambda>i. CreateBed (newBed rid i)) [lo..k - 1], Inl RequestFailed)"
proof (induction be rid lo n rule: createBeds.induct)
  case (1 be rid i n)
  have lt: "i < n" using "1.prems" by simp
  show ?case
  proof (cases "i = k")
    case True
    have "createBeds be rid k n = ([], Inl RequestFailed)"
      using "1.prems" by (simp add: createBeds.simps [of be rid k n])
    then show ?thesis using True by simp
  next
    case False
    then have ik: "i < k" using "1.prems" by simp
    have ok: "respond be (CreateBed (newBed rid i))" using "1.prems" ik by simp
    have ih: "createBeds be rid (i + 1) n =
        (map (\<lambda>i. CreateBed (newBed rid i)) [i + 1..k - 1], Inl RequestFailed)"
      using "1.IH" [OF lt ok] "1.prems" ik by simp
    have "[i..k - 1] = i # [i + 1..k - 1]" using ik by (simp add: upto_rec1)
    then show ?thesis using lt ok ih by (simp add: createBeds.simps [of be rid i n])
  qed
qed

lemma createBeds_success:
  "snd (createBeds be rid lo n) = Inr () \<Longrightarrow>
   fst (createBeds be rid lo n) = map (\<lambda>i. CreateBed (newBed rid i)) [lo..n - 1]"
proof (induction be rid lo n rule: createBeds.induct)
  case (1 be rid i n)
  show ?case
  proof (cases "i < n")
    case True
    show ?thesis
    proof (cases "respond be (CreateBed (newBed rid i))")
      case ok: True
      have s: "snd (createBeds be rid (i + 1) n) = Inr ()"
        using "1.prems" True ok
        by (simp add: createBeds.simps [of be rid i n] split: prod.splits)
      have ih: "fst (createBeds be rid (i + 1) n) = map (\<lambda>i. CreateBed (newBed rid i)) [i + 1..n - 1]"
        using "1.IH" [OF True ok s] .
      have "[i..n - 1] = i # [i + 1..n - 1]" using True by (simp add: upto_rec1)
      then show ?thesis using True ok ih
        by (cases "createBeds be rid (i + 1) n") (simp add: createBeds.simps [of be rid i n])
    next
      case False
      then show ?thesis using "1.prems" True by (simp add: createBeds.simps [of be rid i n])
    qed
  next
    case False
    then show ?thesis by (simp add: createBeds.simps [of be rid i n])
  qed
qed

lemma createdBeds_map:
  "createdBeds (map (\<lambda>i. CreateBed (f i)) xs) = map f xs"
  by (induction xs) simp_all

lemma no_delete_map:
  "\<not> list_ex isDelete (map (\<lambda>i. CreateBed (f i)) xs)"
  by (induction xs) simp_all

lemma updateRoomBeds_sent:
  assumes "respond be (GetRoom roomId)" and "snd (updateRoomBeds be roomId n) = Inr ()"
  shows "fst (updateRoomBeds be roomId n) =
     GetRoom roomId # UpdateRoom roomId n #
       map (\<lambda>i. CreateBed (newBed roomId i)) [currentBedCount (getRoom_result be roomId)..n - 1]"
proof (cases "n > currentBedCount (getRoom_result be roomId)")
  case True
  obtain sent r where p: "createBeds be roomId (currentBedCount (getRoom_result be roomId)) n = (sent, r)"
    by (cases "createBeds be roomId (currentBedCount (getRoom_result be roomId)) n")
  have r: "r = Inr ()" using assms True p
    by (simp add: updateRoomBeds_def Let_def split: if_splits)
  have "sent = map (\<lambda>i. CreateBed (newBed roomId i)) [currentBedCount (getRoom_result be roomId)..n - 1]"
    using createBeds_success [of be roomId "currentBedCount (getRoom_result be roomId)" n] p r by simp
  then show ?thesis using assms True p
    by (simp add: updateRoomBeds_def Let_def split: if_splits)
next
  case False
  then have "[currentBedCount (getRoom_result be roomId)..n - 1] = []" by simp
  then show ?thesis using assms False
    by (simp add: updateRoomBeds_def Let_def split: if_splits)
qed

lemma updateRoomBeds_violation:
  assumes "respond be (GetRoom roomId)"
  shows "snd (updateRoomBeds be roomId n) = Inl CapacityViolation
     \<longleftrightarrow> n < int (length (occupiedBeds (getRoom_result be roomId)))"
proof (cases "n < int (length (occupiedBeds (getRoom_result be roomId)))")
  case True
  then show ?thesis using assms by (simp add: updateRoomBeds_def Let_def)
next
  case False
  have cb: "snd (createBeds be rid lo m) \<noteq> Inl CapacityViolation" for rid lo m
  proof (induction be rid lo m rule: createBeds.induct)
    case (1 be rid i m)
    show ?case
    proof (cases "i < m \<and> respond be (CreateBed (newBed rid i))")
      case True
      then show ?thesis using "1.IH"
        by (cases "createBeds be rid (i + 1) m") (simp add: createBeds.simps [of be rid i m])
    next
      case False
      then show ?thesis by (auto simp add: createBeds.simps [of be rid i m])
    qed
  qed
  show ?thesis
  proof (cases "createBeds be roomId (currentBedCount (getRoom_result be roomId)) n")
    case (Pair sent r)
    then have "r \<noteq> Inl CapacityViolation"
      using cb [of roomId "currentBedCount (getRoom_result be roomId)" n] by simp
    then show ?thesis using assms False Pair
      by (simp add: updateRoomBeds_def Let_def)
  qed
qed

lemma sorted_labels:
  assumes "m \<le> 65471"
  shows "sorted_wrt js_less (map (\<lambda>i. fromCharCode (65 + i)) [0..m - 1])"
proof -
  have "sorted_wrt (\<lambda>i j. js_less (fromCharCode (65 + i)) (fromCharCode (65 + j))) [0..m - 1]"
  proof (rule sorted_wrt_mono_rel [OF _ sorted_wrt_upto])
    fix i j assume "i \<in> set [0..m - 1]" "j \<in> set [0..m - 1]" "i < j"
    then show "js_less (fromCharCode (65 + i)) (fromCharCode (65 + j))"
      using assms by (simp add: fromCharCode_def)
  qed
  then show ?thesis by (simp add: sorted_wrt_map)
qed

lemma floor1_number: "parseInt (replaceFirst [102, 108, 111, 111, 114, 45] [] floor1) = Some 1"
  by (simp add: floor1_def parseInt_def Let_def isWhiteSpace_def isRadixDigit_def digitValue_def
      digitsValue_def)

text \<open>
  C3, as the code has it (first revision of \<^verbatim>\<open>updateRoomBeds\<close>). Once the room is
  fetched, \<^verbatim>\<open>updateRoomBeds(roomId, n)\<close> throws the capacity error exactly when \<open>n\<close> is
  less than the number of occupied beds of the room. When it returns, it has created
  exactly \<open>max 0 (n - currentBedCount)\<close> beds, each AVAILABLE, labelled
  \<^verbatim>\<open>String.fromCharCode(65 + i)\<close> for \<open>i\<close> from the current bed count to \<open>n - 1\<close>, and
  has deleted nothing. The label is chosen from the bed count, not from the labels in
  use: when the beds of the room are labelled \<^verbatim>\<open>A, B, ...\<close> in order and neither
  count exceeds 65471, the old and the new labels together are strictly increasing.
\<close>

theorem updateRoomBeds_resize:
  assumes "respond be (GetRoom roomId)"
  shows "(snd (updateRoomBeds be roomId n) = Inl CapacityViolation
            \<longleftrightarrow> n < int (length (occupiedBeds (getRoom_result be roomId))))
     \<and> (snd (updateRoomBeds be roomId n) = Inr () \<longrightarrow>
          createdBeds (fst (updateRoomBeds be roomId n)) =
            map (newBed roomId) [currentBedCount (getRoom_result be roomId)..n - 1]
          \<and> int (length (createdBeds (fst (updateRoomBeds be roomId n)))) =
              max 0 (n - currentBedCount (getRoom_result be roomId))
          \<and> list_all (\<lambda>d. bc_status d = AVAILABLE) (createdBeds (fst (updateRoomBeds be roomId n)))
          \<and> \<not> list_ex isDelete (fst (updateRoomBeds be roomId n))
          \<and> (n \<le> 65471 \<and> currentBedCount (getRoom_result be roomId) \<le> 65471
               \<and> map ab_label (bedsOf (getRoom_result be roomId)) =
                   map (\<lambda>i. fromCharCode (65 + i)) [0..currentBedCount (getRoom_result be roomId) - 1]
             \<longrightarrow> sorted_wrt js_less
                   (map ab_label (bedsOf (getRoom_result be roomId)) @
                    map bc_label (createdBeds (fst (updateRoomBeds be roomId n))))))"
proof (intro conjI impI)
  show "snd (updateRoomBeds be roomId n) = Inl CapacityViolation
            \<longleftrightarrow> n < int (length (occupiedBeds (getRoom_result be roomId)))"
    using updateRoomBeds_violation [OF assms] .
next
  assume ok: "snd (updateRoomBeds be roomId n) = Inr ()"
  let ?k = "currentBedCount (getRoom_result be roomId)"
  have sent: "fst (updateRoomBeds be roomId n) =
      GetRoom roomId # UpdateRoom roomId n # map (\<lambda>i. CreateBed (newBed roomId i)) [?k..n - 1]"
    using updateRoomBeds_sent [OF assms ok] .
  show created: "createdBeds (fst (updateRoomBeds be roomId n)) = map (newBed roomId) [?k..n - 1]"
    by (simp add: sent createdBeds_map)
  show "int (length (createdBeds (fst (updateRoomBeds be roomId n)))) = max 0 (n - ?k)"
    by (simp add: created)
  show "list_all (\<lambda>d. bc_status d = AVAILABLE) (createdBeds (fst (updateRoomBeds be roomId n)))"
    by (simp add: created list_all_iff newBed_def)
  show "\<not> list_ex isDelete (fst (updateRoomBeds be roomId n))"
    using no_delete_map [of "newBed roomId" "[?k..n - 1]"] by (simp add: sent)
  assume h: "n \<le> 65471 \<and> ?k \<le> 65471
               \<and> map ab_label (bedsOf (getRoom_result be roomId)) =
                   map (\<lambda>i. fromCharCode (65 + i)) [0..?k - 1]"
  have k0: "0 \<le> ?k" by (simp add: currentBedCount_def)
  have lab: "map bc_label (map (newBed roomId) [?k..n - 1]) = map (\<lambda>i. fromCharCode (65 + i)) [?k..n - 1]"
    by (simp add: newBed_def)
  have "map (\<lambda>i. fromCharCode (65 + i)) [0..?k - 1] @ map (\<lambda>i. fromCharCode (65 + i)) [?k..n - 1]
      = map (\<lambda>i. fromCharCode (65 + i)) [0..max ?k n - 1]"
  proof (cases "?k \<le> n - 1")
    case True
    then have "[0..n - 1] = [0..?k - 1] @ [?k..n - 1]" using k0 upto_split1 [of 0 ?k "n - 1"] by simp
    moreover have "max ?k n = n" using True by simp
    ultimately show ?thesis by simp
  next
    case False
    then have "[?k..n - 1] = []" "max ?k n = ?k" by simp_all
    then show ?thesis by simp
  qed
  moreover have "sorted_wrt js_less (map (\<lambda>i. fromCharCode (65 + i)) [0..max ?k n - 1])"
    using sorted_labels [of "max ?k n"] h by simp
  ultimately show "sorted_wrt js_less
                   (map ab_label (bedsOf (getRoom_result be roomId)) @
                    map bc_label (createdBeds (fst (updateRoomBeds be roomId n))))"
    using h by (simp only: created lab)
qed

text \<open>
  C3 as first stated (the new labels are strictly increasing and continue the
  sequence of the room) fails. In a room that has beds \<^verbatim>\<open>A\<close> and \<^verbatim>\<open>C\<close>, resizing to
  3 creates a second bed \<^verbatim>\<open>C\<close>. In a room of 65470 beds, resizing to 65472 creates
  the labels with code units 65535 and 0.
\<close>

theorem updateRoomBeds_resize_counterexample:
  "updateRoomBeds backendAC ''room-1'' 3 =
     ([GetRoom ''room-1'', UpdateRoom ''room-1'' 3,
       CreateBed \<lparr>bc_label = [67], bc_roomId = ''room-1'', bc_status = AVAILABLE\<rparr>], Inr ())
   \<and> map ab_label (bedsOf (getRoom_result backendAC ''room-1'')) = [[65], [67]]
   \<and> \<not> sorted_wrt js_less
        (map ab_label (bedsOf (getRoom_result backendAC ''room-1'')) @
         map bc_label (createdBeds (fst (updateRoomBeds backendAC ''room-1'' 3))))
   \<and> snd (updateRoomBeds backendLarge ''room-1'' 65472) = Inr ()
   \<and> map bc_label (createdBeds (fst (updateRoomBeds backendLarge ''room-1'' 65472))) = [[65535], [0]]
   \<and> \<not> sorted_wrt js_less
        (map bc_label (createdBeds (fst (updateRoomBeds backendLarge ''room-1'' 65472))))"
proof -
  have a: "updateRoomBeds backendAC ''room-1'' 3 =
     ([GetRoom ''room-1'', UpdateRoom ''room-1'' 3,
       CreateBed \<lparr>bc_label = [67], bc_roomId = ''room-1'', bc_status = AVAILABLE\<rparr>], Inr ())"
    by (simp add: updateRoomBeds_def backendAC_def acceptAll_def roomAC_def occupiedBeds_def
        bedsOf_def currentBedCount_def createBeds.simps newBed_def fromCharCode_def)
  have b: "updateRoomBeds backendLarge ''room-1'' 65472 =
     ([GetRoom ''room-1'', UpdateRoom ''room-1'' 65472,
       CreateBed \<lparr>bc_label = [65535], bc_roomId = ''room-1'', bc_status = AVAILABLE\<rparr>,
       CreateBed \<lparr>bc_label = [0], bc_roomId = ''room-1'', bc_status = AVAILABLE\<rparr>], Inr ())"
    by (simp add: updateRoomBeds_def backendLarge_def acceptAll_def roomLarge_def occupiedBeds_def
        bedsOf_def currentBedCount_def createBeds.simps newBed_def fromCharCode_def)
  show ?thesis
    by (simp add: a b) (simp add: backendAC_def roomAC_def bedsOf_def)
qed

theorem updateRoomBeds_resize_witness:
  "respond backendAB (GetRoom ''room-1'')
   \<and> length (occupiedBeds (getRoom_result backendAB ''room-1'')) = 1
   \<and> snd (updateRoomBeds backendAB ''room-1'' 0) = Inl CapacityViolation
   \<and> snd (updateRoomBeds backendAB ''room-1'' 4) = Inr ()
   \<and> createdBeds (fst (updateRoomBeds backendAB ''room-1'' 4)) =
       [\<lparr>bc_label = [67], bc_roomId = ''room-1'', bc_status = AVAILABLE\<rparr>,
        \<lparr>bc_label = [68], bc_roomId = ''room-1'', bc_status = AVAILABLE\<rparr>]
   \<and> \<not> list_ex isDelete (fst (updateRoomBeds backendAB ''room-1'' 4))
   \<and> sorted_wrt js_less
        (map ab_label (bedsOf (getRoom_result backendAB ''room-1'')) @
         map bc_label (createdBeds (fst (updateRoomBeds backendAB ''room-1'' 4))))"
proof -
  have g: "respond backendAB (GetRoom ''room-1'')" by (simp add: backendAB_def acceptAll_def)
  have oc: "length (occupiedBeds (getRoom_result backendAB ''room-1'')) = 1"
    by (simp add: backendAB_def roomAB_def occupiedBeds_def bedsOf_def)
  have ok: "snd (updateRoomBeds backendAB ''room-1'' 4) = Inr ()"
    by (simp add: updateRoomBeds_def backendAB_def acceptAll_def roomAB_def occupiedBeds_def
        bedsOf_def currentBedCount_def createBeds.simps newBed_def fromCharCode_def)
  have k: "currentBedCount (getRoom_result backendAB ''room-1'') = 2"
    by (simp add: backendAB_def roomAB_def bedsOf_def currentBedCount_def)
  have u: "[2..(3::int)] = [2, 3]" "[0..(1::int)] = [0, 1]" by (simp_all add: upto_rec1)
  have labels: "map ab_label (bedsOf (getRoom_result backendAB ''room-1'')) =
      map (\<lambda>i. fromCharCode (65 + i)) [0..currentBedCount (getRoom_result backendAB ''room-1'') - 1]"
    by (simp add: k u) (simp add: backendAB_def roomAB_def bedsOf_def fromCharCode_def)
  have bound: "(4::int) \<le> 65471 \<and> currentBedCount (getRoom_result backendAB ''room-1'') \<le> 65471"
    by (simp add: k)
  have low: "snd (updateRoomBeds backendAB ''room-1'' 0) = Inl CapacityViolation"
    using updateRoomBeds_resize [OF g, of 0] oc by simp
  have all: "createdBeds (fst (updateRoomBeds backendAB ''room-1'' 4)) =
          map (newBed ''room-1'') [currentBedCount (getRoom_result backendAB ''room-1'')..4 - 1]
      \<and> \<not> list_ex isDelete (fst (updateRoomBeds backendAB ''room-1'' 4))
      \<and> sorted_wrt js_less
          (map ab_label (bedsOf (getRoom_result backendAB ''room-1'')) @
           map bc_label (createdBeds (fst (updateRoomBeds backendAB ''room-1'' 4))))"
    using updateRoomBeds_resize [OF g, of 4] ok labels bound by blast
  have created: "createdBeds (fst (updateRoomBeds backendAB ''room-1'' 4)) =
       [\<lparr>bc_label = [67], bc_roomId = ''room-1'', bc_status = AVAILABLE\<rparr>,
        \<lparr>bc_label = [68], bc_roomId = ''room-1'', bc_status = AVAILABLE\<rparr>]"
    using all by (simp add: k u newBed_def fromCharCode_def)
  show ?thesis
    using g oc low ok created all by blast
qed

text \<open>
  C6, as the code has it. \<^verbatim>\<open>addRoom\<close> creates the room and then one bed for each
  \<open>i\<close> from 0 to \<open>bedCount - 1\<close>, labelled \<^verbatim>\<open>String.fromCharCode(65 + i)\<close>
  (\<^verbatim>\<open>A, B, C, ...\<close>). When the backend accepts every request it returns after exactly
  these requests. When the request for bed \<open>k\<close> is the first to fail it throws, and the
  room and the \<open>k\<close> beds before it stay created: no request undoes them.
\<close>

theorem addRoom_no_rollback:
  assumes "findProperty properties floorId = Some property"
    and "respond be (CreateRoom (roomData property floorId roomNumber bedCount))"
  shows "((\<forall>i. 0 \<le> i \<and> i < bedCount \<longrightarrow>
             respond be (CreateBed (newBed (createRoom_id be (roomData property floorId roomNumber bedCount)) i)))
          \<longrightarrow> addRoom be properties floorId roomNumber bedCount =
                (CreateRoom (roomData property floorId roomNumber bedCount) #
                 map (\<lambda>i. CreateBed (newBed (createRoom_id be (roomData property floorId roomNumber bedCount)) i))
                   [0..bedCount - 1], Inr ()))
     \<and> (0 \<le> k \<and> k < bedCount
          \<and> (\<forall>i. 0 \<le> i \<and> i < k \<longrightarrow>
                respond be (CreateBed (newBed (createRoom_id be (roomData property floorId roomNumber bedCount)) i)))
          \<and> \<not> respond be (CreateBed (newBed (createRoom_id be (roomData property floorId roomNumber bedCount)) k))
          \<longrightarrow> addRoom be properties floorId roomNumber bedCount =
                (CreateRoom (roomData property floorId roomNumber bedCount) #
                 map (\<lambda>i. CreateBed (newBed (createRoom_id be (roomData property floorId roomNumber bedCount)) i))
                   [0..k - 1], Inl RequestFailed))"
proof (intro conjI impI)
  let ?d = "roomData property floorId roomNumber bedCount"
  assume "\<forall>i. 0 \<le> i \<and> i < bedCount \<longrightarrow> respond be (CreateBed (newBed (createRoom_id be ?d) i))"
  then have "createBeds be (createRoom_id be ?d) 0 bedCount =
      (map (\<lambda>i. CreateBed (newBed (createRoom_id be ?d) i)) [0..bedCount - 1], Inr ())"
    by (intro createBeds_all) simp
  then show "addRoom be properties floorId roomNumber bedCount =
      (CreateRoom ?d # map (\<lambda>i. CreateBed (newBed (createRoom_id be ?d) i)) [0..bedCount - 1], Inr ())"
    using assms by (simp add: addRoom_def Let_def)
next
  let ?d = "roomData property floorId roomNumber bedCount"
  assume h: "0 \<le> k \<and> k < bedCount
          \<and> (\<forall>i. 0 \<le> i \<and> i < k \<longrightarrow> respond be (CreateBed (newBed (createRoom_id be ?d) i)))
          \<and> \<not> respond be (CreateBed (newBed (createRoom_id be ?d) k))"
  have "createBeds be (createRoom_id be ?d) 0 bedCount =
      (map (\<lambda>i. CreateBed (newBed (createRoom_id be ?d) i)) [0..k - 1], Inl RequestFailed)"
    using h by (intro createBeds_fail) simp_all
  then show "addRoom be properties floorId roomNumber bedCount =
      (CreateRoom ?d # map (\<lambda>i. CreateBed (newBed (createRoom_id be ?d) i)) [0..k - 1], Inl RequestFailed)"
    using assms by (simp add: addRoom_def Let_def)
qed

text \<open>
  C6 as first stated (a failure partway rolls back the room and the beds created
  so far) fails: with a backend that rejects bed \<^verbatim>\<open>B\<close>, adding a room of 3 beds
  throws after the room and bed \<^verbatim>\<open>A\<close> were created, and deletes neither.
\<close>

theorem addRoom_counterexample:
  "addRoom backendRejectB exampleProperties floor1 ''101'' 3 =
     ([CreateRoom \<lparr>rc_roomNumber = ''101'', rc_floorNumber = Some 1, rc_type = ''STANDARD'',
                   rc_capacity = 3, rc_propertyId = ''p1''\<rparr>,
       CreateBed \<lparr>bc_label = [65], bc_roomId = ''room-1'', bc_status = AVAILABLE\<rparr>],
      Inl RequestFailed)
   \<and> \<not> list_ex isDelete (fst (addRoom backendRejectB exampleProperties floor1 ''101'' 3))
   \<and> length (createdBeds (fst (addRoom backendRejectB exampleProperties floor1 ''101'' 3))) = 1"
proof -
  have a: "addRoom backendRejectB exampleProperties floor1 ''101'' 3 =
     ([CreateRoom \<lparr>rc_roomNumber = ''101'', rc_floorNumber = Some 1, rc_type = ''STANDARD'',
                   rc_capacity = 3, rc_propertyId = ''p1''\<rparr>,
       CreateBed \<lparr>bc_label = [65], bc_roomId = ''room-1'', bc_status = AVAILABLE\<rparr>],
      Inl RequestFailed)"
    by (simp add: addRoom_def Let_def findProperty_def exampleProperties_def roomData_def
        floor1_number backendRejectB_def rejectLabelB_def roomId1_def createBeds.simps newBed_def
        fromCharCode_def)
  show ?thesis by (simp add: a)
qed

theorem addRoom_no_rollback_witness:
  "findProperty exampleProperties floor1 = Some (hd exampleProperties)
   \<and> respond backendAB (CreateRoom (roomData (hd exampleProperties) floor1 ''101'' 2))
   \<and> addRoom backendAB exampleProperties floor1 ''101'' 2 =
     ([CreateRoom \<lparr>rc_roomNumber = ''101'', rc_floorNumber = Some 1, rc_type = ''STANDARD'',
                   rc_capacity = 2, rc_propertyId = ''p1''\<rparr>,
       CreateBed \<lparr>bc_label = [65], bc_roomId = ''room-1'', bc_status = AVAILABLE\<rparr>,
       CreateBed \<lparr>bc_label = [66], bc_roomId = ''room-1'', bc_status = AVAILABLE\<rparr>], Inr ())
   \<and> respond backendRejectB (CreateRoom (roomData (hd exampleProperties) floor1 ''101'' 2))
   \<and> addRoom backendRejectB exampleProperties floor1 ''101'' 2 =
     ([CreateRoom \<lparr>rc_roomNumber = ''101'', rc_floorNumber = Some 1, rc_type = ''STANDARD'',
                   rc_capacity = 2, rc_propertyId = ''p1''\<rparr>,
       CreateBed \<lparr>bc_label = [65], bc_roomId = ''room-1'', bc_status = AVAILABLE\<rparr>],
      Inl RequestFailed)"
proof -
  let ?d = "roomData (hd exampleProperties) floor1 ''101'' 2"
  have f: "findProperty exampleProperties floor1 = Some (hd exampleProperties)"
    by (simp add: findProperty_def exampleProperties_def)
  have r1: "respond backendAB (CreateRoom ?d)"
    by (simp add: backendAB_def acceptAll_def)
  have r2: "respond backendRejectB (CreateRoom ?d)"
    by (simp add: backendRejectB_def rejectLabelB_def)
  have all1: "\<forall>i. 0 \<le> i \<and> i < 2 \<longrightarrow>
      respond backendAB (CreateBed (newBed (createRoom_id backendAB ?d) i))"
    by (simp add: backendAB_def acceptAll_def)
  have k: "(0::int) \<le> 1 \<and> (1::int) < 2" by simp
  have before: "\<forall>i. 0 \<le> i \<and> i < 1 \<longrightarrow>
      respond backendRejectB (CreateBed (newBed (createRoom_id backendRejectB ?d) i))"
  proof (intro allI impI)
    fix i :: int assume "0 \<le> i \<and> i < 1"
    then have "i = 0" by simp
    then show "respond backendRejectB (CreateBed (newBed (createRoom_id backendRejectB ?d) i))"
      by (simp add: backendRejectB_def rejectLabelB_def newBed_def fromCharCode_def)
  qed
  have at: "\<not> respond backendRejectB (CreateBed (newBed (createRoom_id backendRejectB ?d) 1))"
    by (simp add: backendRejectB_def rejectLabelB_def newBed_def fromCharCode_def)
  have u: "[0..(1::int)] = [0, 1]" "[0..(0::int)] = [0]" by (simp_all add: upto_rec1)
  have one: "addRoom backendAB exampleProperties floor1 ''101'' 2 =
      (CreateRoom ?d # map (\<lambda>i. CreateBed (newBed (createRoom_id backendAB ?d) i)) [0..2 - 1], Inr ())"
    using addRoom_no_rollback [OF f r1, of 0] all1 by blast
  have two: "addRoom backendRejectB exampleProperties floor1 ''101'' 2 =
      (CreateRoom ?d # map (\<lambda>i. CreateBed (newBed (createRoom_id backendRejectB ?d) i)) [0..1 - 1],
       Inl RequestFailed)"
    using addRoom_no_rollback [OF f r2, of 1] k before at by blast
  have d: "?d = \<lparr>rc_roomNumber = ''101'', rc_floorNumber = Some 1, rc_type = ''STANDARD'',
                   rc_capacity = 2, rc_propertyId = ''p1''\<rparr>"
    by (simp add: roomData_def floor1_number exampleProperties_def)
  show ?thesis
    unfolding one two
    using f r1 r2
    by (simp add: u d backendAB_def backendRejectB_def roomId1_def newBed_def fromCharCode_def)
qed

section \<open>The allocation core: onboarding, assignment, complaints\<close>

lemma find_map_assign:
  "find (\<lambda>x. bed_id x = b) xs = Some x \<Longrightarrow>
   find (\<lambda>x. bed_id x = b)
     (map (\<lambda>y. if bed_id y = b then y\<lparr>status := OCCUPIED, currentStudentId := Some sid\<rparr> else y) xs)
   = Some (x\<lparr>status := OCCUPIED, currentStudentId := Some sid\<rparr>)"
  by (induction xs) (auto split: if_splits)

lemma assignBed_body_occupied:
  "find (\<lambda>x. bed_id x = b) (store_beds s) = Some x \<Longrightarrow> status x = OCCUPIED \<Longrightarrow>
   assignBed_body b sid s = Inl Conflict"
  by (simp add: assignBed_body_def)

lemma assignBed_body_success:
  assumes "assignBed_body b sid s = Inr s'"
  shows "students s' = students s \<and> bookings s' = bookings s \<and> payments s' = payments s
     \<and> (\<exists>x. find (\<lambda>x. bed_id x = b) (store_beds s') = Some x
            \<and> status x = OCCUPIED \<and> currentStudentId x = Some sid)"
proof (cases "find (\<lambda>x. bed_id x = b) (store_beds s)")
  case None
  then show ?thesis using assms by (simp add: assignBed_body_def)
next
  case (Some x)
  have s': "s' = s\<lparr>store_beds :=
      map (\<lambda>y. if bed_id y = b then y\<lparr>status := OCCUPIED, currentStudentId := Some sid\<rparr> else y)
        (store_beds s)\<rparr>"
    using assms Some by (auto simp: assignBed_body_def split: if_splits option.splits)
  show ?thesis using find_map_assign [OF Some, of sid] by (simp add: s')
qed

lemma onboard_body_steps:
  "onboard_body sid bid pid d s =
     assignBed_body (ob_bedId d) sid
       (s\<lparr>students := students s @
             [\<lparr>student_id = sid, student_name = ob_name d, isActive = True\<rparr>],
          bookings := bookings s @
             [\<lparr>booking_id = bid, booking_studentId = sid, frequency = ob_frequency d,
               booking_startDate = ob_startDate d, booking_endDate = ob_endDate d,
               totalAmount = ob_totalAmount d\<rparr>],
          payments := payments s @
             [\<lparr>payment_id = pid, payment_bookingId = bid, payment_method = ob_paymentMethod d,
               transactionRef = ob_transactionRef d\<rparr>]\<rparr>)"
  by (simp add: onboard_body_def andThen_def createStudent_def createBooking_def createPayment_def)

text \<open>
  C1. Onboarding is atomic. When \<^verbatim>\<open>onboard\<close> fails, the store is the store before
  the call: no student, booking or payment was created and no bed changed. When it
  succeeds, the store has the new student, the booking of that student, the payment of
  that booking, and the chosen bed is OCCUPIED by the new student. In particular, when
  the chosen bed is OCCUPIED at commit time, \<^verbatim>\<open>onboard\<close> fails with Conflict and the
  store is unchanged.
\<close>

theorem onboard_atomic:
  "((\<exists>e. fst (onboard sid bid pid d s) = Inl e) \<longrightarrow> snd (onboard sid bid pid d s) = s)
   \<and> (fst (onboard sid bid pid d s) = Inr () \<longrightarrow>
        students (snd (onboard sid bid pid d s)) = students s @
          [\<lparr>student_id = sid, student_name = ob_name d, isActive = True\<rparr>]
        \<and> bookings (snd (onboard sid bid pid d s)) = bookings s @
          [\<lparr>booking_id = bid, booking_studentId = sid, frequency = ob_frequency d,
            booking_startDate = ob_startDate d, booking_endDate = ob_endDate d,
            totalAmount = ob_totalAmount d\<rparr>]
        \<and> payments (snd (onboard sid bid pid d s)) = payments s @
          [\<lparr>payment_id = pid, payment_bookingId = bid, payment_method = ob_paymentMethod d,
            transactionRef = ob_transactionRef d\<rparr>]
        \<and> (\<exists>x. find (\<lambda>x. bed_id x = ob_bedId d) (store_beds (snd (onboard sid bid pid d s))) = Some x
               \<and> status x = OCCUPIED \<and> currentStudentId x = Some sid))
   \<and> ((\<exists>x. find (\<lambda>x. bed_id x = ob_bedId d) (store_beds s) = Some x \<and> status x = OCCUPIED)
        \<longrightarrow> onboard sid bid pid d s = (Inl Conflict, s))"
proof (intro conjI impI)
  assume "\<exists>e. fst (onboard sid bid pid d s) = Inl e"
  then show "snd (onboard sid bid pid d s) = s"
    by (auto simp: onboard_def runTransaction_def split: sum.splits)
next
  assume ok: "fst (onboard sid bid pid d s) = Inr ()"
  then obtain s' where b: "onboard_body sid bid pid d s = Inr s'"
    by (auto simp: onboard_def runTransaction_def split: sum.splits)
  then have s': "snd (onboard sid bid pid d s) = s'"
    by (simp add: onboard_def runTransaction_def)
  note fact = assignBed_body_success [OF b [unfolded onboard_body_steps]]
  show "students (snd (onboard sid bid pid d s)) = students s @
          [\<lparr>student_id = sid, student_name = ob_name d, isActive = True\<rparr>]"
    using fact by (simp add: s')
  show "bookings (snd (onboard sid bid pid d s)) = bookings s @
          [\<lparr>booking_id = bid, booking_studentId = sid, frequency = ob_frequency d,
            booking_startDate = ob_startDate d, booking_endDate = ob_endDate d,
            totalAmount = ob_totalAmount d\<rparr>]"
    using fact by (simp add: s')
  show "payments (snd (onboard sid bid pid d s)) = payments s @
          [\<lparr>payment_id = pid, payment_bookingId = bid, payment_method = ob_paymentMethod d,
            transactionRef = ob_transactionRef d\<rparr>]"
    using fact by (simp add: s')
  show "\<exists>x. find (\<lambda>x. bed_id x = ob_bedId d) (store_beds (snd (onboard sid bid pid d s))) = Some x
               \<and> status x = OCCUPIED \<and> currentStudentId x = Some sid"
    using fact by (simp add: s')
next
  assume "\<exists>x. find (\<lambda>x. bed_id x = ob_bedId d) (store_beds s) = Some x \<and> status x = OCCUPIED"
  then obtain x where x: "find (\<lambda>x. bed_id x = ob_bedId d) (store_beds s) = Some x"
    "status x = OCCUPIED" by blast
  have "onboard_body sid bid pid d s = Inl Conflict"
    unfolding onboard_body_steps using x by (intro assignBed_body_occupied [of _ _ x]) simp_all
  then show "onboard sid bid pid d s = (Inl Conflict, s)"
    by (simp add: onboard_def runTransaction_def)
qed

theorem onboard_atomic_witness:
  "fst (onboard ''s1'' ''bk1'' ''pay1'' (addResident_data exampleResident) exampleStore) = Inr ()
   \<and> students (snd (onboard ''s1'' ''bk1'' ''pay1'' (addResident_data exampleResident) exampleStore)) =
       [\<lparr>student_id = ''s0'', student_name = ''Ravi'', isActive = True\<rparr>,
        \<lparr>student_id = ''s1'', student_name = ''Asha'', isActive = True\<rparr>]
   \<and> bookings (snd (onboard ''s1'' ''bk1'' ''pay1'' (addResident_data exampleResident) exampleStore)) =
       [\<lparr>booking_id = ''bk1'', booking_studentId = ''s1'', frequency = MONTHLY,
         booking_startDate = ''2025-01-01'', booking_endDate = ''2025-12-31'',
         totalAmount = 60000\<rparr>]
   \<and> payments (snd (onboard ''s1'' ''bk1'' ''pay1'' (addResident_data exampleResident) exampleStore)) =
       [\<lparr>payment_id = ''pay1'', payment_bookingId = ''bk1'', payment_method = CASH_OFFLINE,
         transactionRef = None\<rparr>]
   \<and> find (\<lambda>x. bed_id x = ''bed-a'')
        (store_beds (snd (onboard ''s1'' ''bk1'' ''pay1'' (addResident_data exampleResident) exampleStore))) =
       Some \<lparr>bed_id = ''bed-a'', bed_label = [65], bed_roomId = ''room-1'', status = OCCUPIED,
             currentStudentId = Some ''s1''\<rparr>
   \<and> find (\<lambda>x. bed_id x = ''bed-b'') (store_beds exampleStore) =
       Some \<lparr>bed_id = ''bed-b'', bed_label = [66], bed_roomId = ''room-1'', status = OCCUPIED,
             currentStudentId = Some ''s0''\<rparr>
   \<and> onboard ''s1'' ''bk1'' ''pay1'' ((addResident_data exampleResident)\<lparr>ob_bedId := ''bed-b''\<rparr>)
        exampleStore = (Inl Conflict, exampleStore)"
proof -
  let ?d = "addResident_data exampleResident"
  have ok: "fst (onboard ''s1'' ''bk1'' ''pay1'' ?d exampleStore) = Inr ()"
    by (simp add: onboard_def runTransaction_def onboard_body_steps assignBed_body_def
        addResident_data_def exampleResident_def exampleStore_def)
  have bed: "find (\<lambda>x. bed_id x = ''bed-a'')
        (store_beds (snd (onboard ''s1'' ''bk1'' ''pay1'' ?d exampleStore))) =
       Some \<lparr>bed_id = ''bed-a'', bed_label = [65], bed_roomId = ''room-1'', status = OCCUPIED,
             currentStudentId = Some ''s1''\<rparr>"
    by (simp add: onboard_def runTransaction_def onboard_body_steps assignBed_body_def
        addResident_data_def exampleResident_def exampleStore_def)
  have created:
    "students (snd (onboard ''s1'' ''bk1'' ''pay1'' ?d exampleStore)) = students exampleStore @
          [\<lparr>student_id = ''s1'', student_name = ob_name ?d, isActive = True\<rparr>]
     \<and> bookings (snd (onboard ''s1'' ''bk1'' ''pay1'' ?d exampleStore)) = bookings exampleStore @
          [\<lparr>booking_id = ''bk1'', booking_studentId = ''s1'', frequency = ob_frequency ?d,
            booking_startDate = ob_startDate ?d, booking_endDate = ob_endDate ?d,
            totalAmount = ob_totalAmount ?d\<rparr>]
     \<and> payments (snd (onboard ''s1'' ''bk1'' ''pay1'' ?d exampleStore)) = payments exampleStore @
          [\<lparr>payment_id = ''pay1'', payment_bookingId = ''bk1'', payment_method = ob_paymentMethod ?d,
            transactionRef = ob_transactionRef ?d\<rparr>]"
    using onboard_atomic [of "''s1''" "''bk1''" "''pay1''" ?d exampleStore] ok by blast
  have taken: "find (\<lambda>x. bed_id x = ''bed-b'') (store_beds exampleStore) =
       Some \<lparr>bed_id = ''bed-b'', bed_label = [66], bed_roomId = ''room-1'', status = OCCUPIED,
             currentStudentId = Some ''s0''\<rparr>"
    by (simp add: exampleStore_def)
  have occ: "\<exists>x. find (\<lambda>x. bed_id x = ob_bedId (?d\<lparr>ob_bedId := ''bed-b''\<rparr>))
        (store_beds exampleStore) = Some x \<and> status x = OCCUPIED"
    by (simp add: taken)
  have conflict: "onboard ''s1'' ''bk1'' ''pay1'' (?d\<lparr>ob_bedId := ''bed-b''\<rparr>) exampleStore
      = (Inl Conflict, exampleStore)"
    using onboard_atomic [of "''s1''" "''bk1''" "''pay1''" "?d\<lparr>ob_bedId := ''bed-b''\<rparr>" exampleStore]
      occ by blast
  have vals: "students exampleStore = [\<lparr>student_id = ''s0'', student_name = ''Ravi'', isActive = True\<rparr>]"
    "bookings exampleStore = []" "payments exampleStore = []"
    "ob_name ?d = ''Asha''" "ob_frequency ?d = MONTHLY" "ob_startDate ?d = ''2025-01-01''"
    "ob_endDate ?d = ''2025-12-31''" "ob_totalAmount ?d = 60000"
    "ob_paymentMethod ?d = CASH_OFFLINE" "ob_transactionRef ?d = None"
    by (simp_all add: exampleStore_def addResident_data_def exampleResident_def)
  show ?thesis
    using ok bed taken conflict created by (simp add: vals)
qed

text \<open>
  C5. For every bed that is already OCCUPIED, \<^verbatim>\<open>assignBed\<close> on it fails with
  Conflict and leaves the store, and so the status and the student of the bed, as they
  were: the occupant is never overwritten.
\<close>

theorem assignBed_occupied:
  assumes "find (\<lambda>x. bed_id x = b) (store_beds s) = Some x" and "status x = OCCUPIED"
  shows "assignBed b sid s = (Inl Conflict, s)
     \<and> find (\<lambda>x. bed_id x = b) (store_beds (snd (assignBed b sid s))) = Some x"
  using assms assignBed_body_occupied [OF assms, of sid]
  by (simp add: assignBed_def runTransaction_def)

theorem assignBed_occupied_witness:
  "find (\<lambda>x. bed_id x = ''bed-b'') (store_beds exampleStore) =
     Some \<lparr>bed_id = ''bed-b'', bed_label = [66], bed_roomId = ''room-1'', status = OCCUPIED,
           currentStudentId = Some ''s0''\<rparr>
   \<and> assignBed ''bed-b'' ''s0'' exampleStore = (Inl Conflict, exampleStore)"
proof -
  have f: "find (\<lambda>x. bed_id x = ''bed-b'') (store_beds exampleStore) =
     Some \<lparr>bed_id = ''bed-b'', bed_label = [66], bed_roomId = ''room-1'', status = OCCUPIED,
           currentStudentId = Some ''s0''\<rparr>"
    by (simp add: exampleStore_def)
  show ?thesis using assignBed_occupied [OF f, of "''s0''"] f by simp
qed

lemma updateStatus_resolvedAt_inv:
  "updateStatus now st c = Inr c' \<Longrightarrow>
   (resolvedAt c \<noteq> None \<longleftrightarrow> complaint_status c = RESOLVED) \<Longrightarrow>
   (resolvedAt c' \<noteq> None \<longleftrightarrow> complaint_status c' = RESOLVED)"
  by (auto simp: updateStatus_def split: if_splits)

lemma runUpdates_inv:
  "(resolvedAt c \<noteq> None \<longleftrightarrow> complaint_status c = RESOLVED) \<Longrightarrow>
   (resolvedAt (runUpdates c us) \<noteq> None \<longleftrightarrow> complaint_status (runUpdates c us) = RESOLVED)"
proof (induction us arbitrary: c)
  case Nil
  then show ?case by simp
next
  case (Cons u us)
  obtain now st where u: "u = (now, st)" by (cases u)
  show ?case
  proof (cases "updateStatus now st c")
    case (Inl e)
    then show ?thesis using Cons u by simp
  next
    case (Inr c')
    then show ?thesis using Cons.IH [of c'] updateStatus_resolvedAt_inv [OF Inr] Cons.prems u
      by simp
  qed
qed

lemma runUpdates_resolved:
  "complaint_status c = RESOLVED \<Longrightarrow> runUpdates c us = c"
proof (induction us)
  case Nil
  then show ?case by simp
next
  case (Cons u us)
  obtain now st where u: "u = (now, st)" by (cases u)
  show ?case using Cons u by (cases st) (simp_all add: updateStatus_def)
qed

lemma updateStatus_rank:
  "updateStatus now st c = Inr c' \<Longrightarrow> rank (complaint_status c) \<le> rank (complaint_status c')"
  by (cases st; cases "complaint_status c") (auto simp: updateStatus_def split: if_splits)

lemma runUpdates_rank:
  "rank (complaint_status c) \<le> rank (complaint_status (runUpdates c us))"
proof (induction us arbitrary: c)
  case Nil
  then show ?case by simp
next
  case (Cons u us)
  obtain now st where u: "u = (now, st)" by (cases u)
  show ?case
  proof (cases "updateStatus now st c")
    case (Inl e)
    then show ?thesis using Cons u by simp
  next
    case (Inr c')
    then show ?thesis using Cons.IH [of c'] updateStatus_rank [OF Inr] u
      by simp
  qed
qed

text \<open>
  C7. The complaint status only moves forward. \<^verbatim>\<open>updateStatus\<close> rejects OPEN as a
  target from every other state; from RESOLVED it rejects every other target, so that
  RESOLVED is terminal; the current status again is accepted and changes nothing. An
  accepted update sets \<^verbatim>\<open>resolvedAt\<close> to the time of the call exactly when it enters
  RESOLVED and leaves it alone otherwise, and never lowers the status. Over every history
  of updates of a new complaint, \<^verbatim>\<open>resolvedAt\<close> is set if and only if the status is
  RESOLVED, and a RESOLVED complaint never changes again.
\<close>

theorem updateStatus_forward:
  "(complaint_status c \<noteq> OPEN \<longrightarrow> updateStatus now OPEN c = Inl Conflict)
   \<and> (complaint_status c = RESOLVED \<and> st \<noteq> RESOLVED \<longrightarrow> updateStatus now st c = Inl Conflict)
   \<and> updateStatus now (complaint_status c) c = Inr c
   \<and> (updateStatus now st c = Inr c' \<longrightarrow>
        (if complaint_status c \<noteq> RESOLVED \<and> complaint_status c' = RESOLVED
         then resolvedAt c' = Some now else resolvedAt c' = resolvedAt c)
        \<and> rank (complaint_status c) \<le> rank (complaint_status c'))
   \<and> (resolvedAt (runUpdates (newComplaint cid) us) \<noteq> None
        \<longleftrightarrow> complaint_status (runUpdates (newComplaint cid) us) = RESOLVED)
   \<and> rank (complaint_status c) \<le> rank (complaint_status (runUpdates c us))
   \<and> (complaint_status c = RESOLVED \<longrightarrow> runUpdates c us = c)"
proof (intro conjI impI)
  show "updateStatus now OPEN c = Inl Conflict" if "complaint_status c \<noteq> OPEN"
    using that by (simp add: updateStatus_def)
  show "updateStatus now st c = Inl Conflict" if "complaint_status c = RESOLVED \<and> st \<noteq> RESOLVED"
    using that by (simp add: updateStatus_def)
  show "updateStatus now (complaint_status c) c = Inr c"
    by (simp add: updateStatus_def)
  show "if complaint_status c \<noteq> RESOLVED \<and> complaint_status c' = RESOLVED
         then resolvedAt c' = Some now else resolvedAt c' = resolvedAt c"
    if "updateStatus now st c = Inr c'"
    using that by (auto simp: updateStatus_def split: if_splits)
  show "rank (complaint_status c) \<le> rank (complaint_status c')" if "updateStatus now st c = Inr c'"
    using that by (rule updateStatus_rank)
  show "resolvedAt (runUpdates (newComplaint cid) us) \<noteq> None
        \<longleftrightarrow> complaint_status (runUpdates (newComplaint cid) us) = RESOLVED"
    by (rule runUpdates_inv) (simp add: newComplaint_def)
  show "rank (complaint_status c) \<le> rank (complaint_status (runUpdates c us))"
    by (rule runUpdates_rank)
  show "runUpdates c us = c" if "complaint_status c = RESOLVED"
    using that by (rule runUpdates_resolved)
qed

theorem updateStatus_forward_witness:
  "updateStatus 11 OPEN \<lparr>complaint_id = ''c1'', complaint_status = RESOLVED, resolvedAt = Some 9\<rparr>
     = Inl Conflict
   \<and> updateStatus 12 IN_PROGRESS
        \<lparr>complaint_id = ''c1'', complaint_status = RESOLVED, resolvedAt = Some 9\<rparr>
     = Inl Conflict
   \<and> updateStatus 9 RESOLVED \<lparr>complaint_id = ''c1'', complaint_status = IN_PROGRESS, resolvedAt = None\<rparr>
     = Inr \<lparr>complaint_id = ''c1'', complaint_status = RESOLVED, resolvedAt = Some 9\<rparr>
   \<and> resolvedAt \<lparr>complaint_id = ''c1'', complaint_status = RESOLVED, resolvedAt = Some 9\<rparr> = Some 9
   \<and> runUpdates (newComplaint ''c1'')
        [(5, transformComplaintStatusToBackend status_in_progress),
         (7, transformComplaintStatusToBackend status_open),
         (9, transformComplaintStatusToBackend status_resolved)]
     = \<lparr>complaint_id = ''c1'', complaint_status = RESOLVED, resolvedAt = Some 9\<rparr>
   \<and> runUpdates \<lparr>complaint_id = ''c1'', complaint_status = RESOLVED, resolvedAt = Some 9\<rparr>
        [(11, transformComplaintStatusToBackend status_open),
         (12, transformComplaintStatusToBackend status_in_progress),
         (13, transformComplaintStatusToBackend status_resolved)]
     = \<lparr>complaint_id = ''c1'', complaint_status = RESOLVED, resolvedAt = Some 9\<rparr>"
proof -
  let ?p = "\<lparr>complaint_id = ''c1'', complaint_status = IN_PROGRESS, resolvedAt = None\<rparr>"
  let ?r = "\<lparr>complaint_id = ''c1'', complaint_status = RESOLVED, resolvedAt = Some 9\<rparr>"
  let ?us = "[(11, transformComplaintStatusToBackend status_open),
              (12, transformComplaintStatusToBackend status_in_progress),
              (13, transformComplaintStatusToBackend status_resolved)]"
  have enter: "updateStatus 9 RESOLVED ?p = Inr ?r"
    by (simp add: updateStatus_def)
  have hist: "runUpdates (newComplaint ''c1'')
        [(5, transformComplaintStatusToBackend status_in_progress),
         (7, transformComplaintStatusToBackend status_open),
         (9, transformComplaintStatusToBackend status_resolved)] = ?r"
    by (simp add: newComplaint_def updateStatus_def)
  have st: "complaint_status ?r = RESOLVED" "complaint_status ?r \<noteq> OPEN"
    "complaint_status ?p \<noteq> RESOLVED" "IN_PROGRESS \<noteq> RESOLVED"
    by simp_all
  have reopen: "updateStatus 11 OPEN ?r = Inl Conflict"
    using updateStatus_forward [of ?r 11 OPEN] st by blast
  have leave: "updateStatus 12 IN_PROGRESS ?r = Inl Conflict"
    using updateStatus_forward [of ?r 12 IN_PROGRESS] st by blast
  have stamp: "resolvedAt ?r = Some 9"
    using updateStatus_forward [of ?p 9 RESOLVED ?r] enter st by metis
  have last: "runUpdates ?r ?us = ?r"
    using updateStatus_forward [of ?r 11 OPEN ?r "''c1''" ?us] st by blast
  show ?thesis
    using reopen leave enter stamp hist last by blast
qed

end
